theory Spec2Isabelle
  imports Complex_Main "HOL-Library.Word"
begin

section \<open>Voice mode relay: strings, exceptions and JSON values\<close>

text \<open>
  Python strings are sequences of Unicode code points. One of the chunker's boundary
  characters (the em dash, U+2014) lies outside the 8-bit range of \<^typ>\<open>char\<close>, so a
  Python \<open>str\<close> is a list of code points; \<open>ustr\<close> turns an ASCII literal into one.
\<close>

type_synonym pystr = "nat list"

abbreviation (input) ustr :: "string \<Rightarrow> pystr" where
  "ustr s \<equiv> map of_char s"

text \<open>
  Exceptions are values. Each carries the text that \<open>str(e)\<close> gives, since the tool-call
  dispatcher reports that text upstream.
\<close>

datatype exn =
    KeyError pystr
  | AttributeError pystr
  | TypeError pystr
  | ValueError pystr
  | JSONDecodeError pystr
  | Exception pystr

fun exn_str :: "exn \<Rightarrow> pystr" where
  "exn_str (KeyError m) = m"
| "exn_str (AttributeError m) = m"
| "exn_str (TypeError m) = m"
| "exn_str (ValueError m) = m"
| "exn_str (JSONDecodeError m) = m"
| "exn_str (Exception m) = m"

text \<open>
  The values \<open>json.loads\<close> produces and \<open>json.dumps\<close> takes. A \<open>dict\<close> is the list of its
  items, looked up with \<^const>\<open>map_of\<close>.
\<close>

datatype json =
    JNull
  | JBool bool
  | JInt int
  | JFloat real
  | JStr pystr
  | JArr "json list"
  | JObj "(pystr \<times> json) list"

type_synonym dict = "(pystr \<times> json) list"

text \<open>Python's truth value of an object, as \<open>if x:\<close> and \<open>if not x:\<close> test it.\<close>

fun truthy :: "json \<Rightarrow> bool" where
  "truthy JNull = False"
| "truthy (JBool b) = b"
| "truthy (JInt i) = (i \<noteq> 0)"
| "truthy (JFloat r) = (r \<noteq> 0)"
| "truthy (JStr s) = (s \<noteq> [])"
| "truthy (JArr xs) = (xs \<noteq> [])"
| "truthy (JObj kvs) = (kvs \<noteq> [])"

fun type_name :: "json \<Rightarrow> pystr" where
  "type_name JNull = ustr ''NoneType''"
| "type_name (JBool b) = ustr ''bool''"
| "type_name (JInt i) = ustr ''int''"
| "type_name (JFloat r) = ustr ''float''"
| "type_name (JStr s) = ustr ''str''"
| "type_name (JArr xs) = ustr ''list''"
| "type_name (JObj kvs) = ustr ''dict''"

text \<open>\<open>d.get(k, default)\<close> and \<open>d[k]\<close> on a \<open>dict\<close>.\<close>

definition dict_get :: "dict \<Rightarrow> pystr \<Rightarrow> json \<Rightarrow> json" where
  "dict_get d k dflt = (case map_of d k of None \<Rightarrow> dflt | Some v \<Rightarrow> v)"

definition dict_index :: "dict \<Rightarrow> pystr \<Rightarrow> exn + json" where
  "dict_index d k =
     (case map_of d k of None \<Rightarrow> Inl (KeyError ([39] @ k @ [39])) | Some v \<Rightarrow> Inr v)"

text \<open>
  \<open>x.get(k, default)\<close> on a value of unknown shape: only a \<open>dict\<close> has \<open>get\<close>, anything
  else raises \<open>AttributeError\<close> with the text \<open>'T' object has no attribute 'get'\<close>, where
  \<open>T\<close> names the type (39 is the single quote).
\<close>

definition no_attribute_get :: "json \<Rightarrow> exn" where
  "no_attribute_get x =
     AttributeError ([39] @ type_name x @ [39] @ ustr '' object has no attribute '' @ [39] @ ustr ''get'' @ [39])"

fun py_get :: "json \<Rightarrow> pystr \<Rightarrow> json \<Rightarrow> exn + json" where
  "py_get (JObj d) k dflt = Inr (dict_get d k dflt)"
| "py_get x k dflt = Inl (no_attribute_get x)"

text \<open>
  What goes over a socket: \<open>Dumps x\<close> is \<open>json.dumps(x)\<close> (and \<open>send_json(x)\<close>);
  \<open>Verbatim m\<close> is a received text sent on unchanged, named by the value \<open>m\<close> that
  \<open>json.loads\<close> gave for it. Sends are taken to succeed; a closed socket ends the pumps
  and is outside this model.
\<close>

datatype wire = Dumps json | Verbatim json

fun wire_json :: "wire \<Rightarrow> json" where
  "wire_json (Dumps x) = x"
| "wire_json (Verbatim x) = x"

definition wire_type :: "wire \<Rightarrow> json" where
  "wire_type w = (case wire_json w of JObj d \<Rightarrow> dict_get d (ustr ''type'') JNull | _ \<Rightarrow> JNull)"

section \<open>Module constants and module-level variables\<close>

definition SILENCE_THRESHOLD :: real where "SILENCE_THRESHOLD = 0.5"
definition PREFIX_PADDING_MS :: int where "PREFIX_PADDING_MS = 300"
definition SILENCE_DURATION_MS :: int where "SILENCE_DURATION_MS = 500"

definition SESSION_INSTRUCTIONS :: pystr where
  "SESSION_INSTRUCTIONS =
     ustr ''Converse with the user to assist with their question. '' @
     ustr ''When appropriate, call the execute_flow function to assist with the user'' @ [39] @
     ustr ''s question as the input parameter and use that to craft your responses. '' @
     ustr ''Always tell the user before you call a function to assist with their question. '' @
     ustr ''And let them know what it does.''"

text \<open>
  The variables assigned at module level in \<open>voice_mode.py\<close>: one copy per process,
  whatever the number of connections. \<open>forward_to_openai\<close> declares
  \<open>global use_elevenlabs, elevenlabs_voice\<close> and assigns both.
\<close>

record globals =
  use_elevenlabs :: json
  elevenlabs_voice :: json
  elevenlabs_model :: pystr
  barge_in_enabled :: bool

definition module_init :: globals where
  "module_init =
     \<lparr>use_elevenlabs = JBool False,
      elevenlabs_voice = JStr (ustr ''JBFqnCBsd6RMkjVDRZzb''),
      elevenlabs_model = ustr ''eleven_multilingual_v2'',
      barge_in_enabled = False\<rparr>"

section \<open>The state of one connection\<close>

type_synonym bytes = "8 word list"

text \<open>
  The variables of one run of \<open>flow_as_tool_websocket\<close> that its nested tasks share:
  what has been sent on \<open>openai_ws\<close> (\<open>upstream\<close>) and on \<open>client_websocket\<close>
  (\<open>client\<close>), the VAD queue and accumulator, the speaking flag, the text-delta queue
  (it holds Python objects; \<open>None\<close>, that is \<open>JNull\<close>, is its sentinel, whether put by
  \<open>response.text.done\<close> or carried by a delta) and whether \<open>text_delta_task\<close> holds a task, and the two
  locals of \<open>forward_to_client\<close> that track the pending function call.
\<close>

record session =
  flow_tool :: json
  upstream :: "wire list"
  client :: "wire list"
  vad_queue :: "json list"
  vad_audio_buffer :: bytes
  bot_speaking_flag :: bool
  text_delta_queue :: "json list"
  text_delta_task :: bool
  function_call :: "dict option"
  function_call_args :: pystr

text \<open>
  \<open>flow_tool\<close>, from the flow's description (\<open>flow_description or "Execute the flow
  with the given input"\<close>).
\<close>

definition make_flow_tool :: "json \<Rightarrow> json" where
  "make_flow_tool flow_description =
     JObj [(ustr ''name'', JStr (ustr ''execute_flow'')),
           (ustr ''type'', JStr (ustr ''function'')),
           (ustr ''description'',
              (if truthy flow_description then flow_description
               else JStr (ustr ''Execute the flow with the given input''))),
           (ustr ''parameters'',
              JObj [(ustr ''type'', JStr (ustr ''object'')),
                    (ustr ''properties'',
                       JObj [(ustr ''input'',
                          JObj [(ustr ''type'', JStr (ustr ''string'')),
                                (ustr ''description'', JStr (ustr ''The input to send to the flow''))])]),
                    (ustr ''required'', JArr [JStr (ustr ''input'')])])]"

text \<open>
  The \<open>session.update\<close> message. The source writes the dictionary out twice, the same
  but for \<open>modalities\<close>: \<open>["text", "audio"]\<close> when the upstream socket opens, and the
  literal \<open>["text"]\<close> in the handler of \<open>elevenlabs.config\<close>.
\<close>

definition session_update :: "json \<Rightarrow> json \<Rightarrow> json" where
  "session_update modalities tool =
     JObj [(ustr ''type'', JStr (ustr ''session.update'')),
           (ustr ''session'',
              JObj [(ustr ''modalities'', modalities),
                    (ustr ''instructions'', JStr SESSION_INSTRUCTIONS),
                    (ustr ''voice'', JStr (ustr ''echo'')),
                    (ustr ''temperature'', JFloat 0.8),
                    (ustr ''input_audio_format'', JStr (ustr ''pcm16'')),
                    (ustr ''output_audio_format'', JStr (ustr ''pcm16'')),
                    (ustr ''turn_detection'',
                       JObj [(ustr ''type'', JStr (ustr ''server_vad'')),
                             (ustr ''threshold'', JFloat SILENCE_THRESHOLD),
                             (ustr ''prefix_padding_ms'', JInt PREFIX_PADDING_MS),
                             (ustr ''silence_duration_ms'', JInt SILENCE_DURATION_MS)]),
                    (ustr ''input_audio_transcription'',
                       JObj [(ustr ''model'', JStr (ustr ''whisper-1''))]),
                    (ustr ''tools'', JArr [tool]),
                    (ustr ''tool_choice'', JStr (ustr ''auto''))])]"

definition session_open :: "json \<Rightarrow> session" where
  "session_open tool =
     \<lparr>flow_tool = tool,
      upstream = [Dumps (session_update (JArr [JStr (ustr ''text''), JStr (ustr ''audio'')]) tool)],
      client = [],
      vad_queue = [],
      vad_audio_buffer = [],
      bot_speaking_flag = False,
      text_delta_queue = [],
      text_delta_task = False,
      function_call = None,
      function_call_args = []\<rparr>"

section \<open>Client to upstream: \<open>forward_to_openai\<close>\<close>

text \<open>
  One turn of the loop of \<open>forward_to_openai\<close>, on the value \<open>msg\<close> that \<open>json.loads\<close>
  gave for the received text. The result is the module variables, the connection state
  and the exception that left the loop, if one did (only the socket's disconnect
  exceptions are caught there). In the \<open>elevenlabs.config\<close> branch \<open>use_elevenlabs\<close> is
  assigned before \<open>msg["voice_id"]\<close> is read, and the local \<open>modalities\<close> is computed
  but the dictionary sent holds the literal \<open>["text"]\<close>. The audio branch ends in
  \<open>continue\<close> only when the audio is empty; otherwise control goes on to the second
  \<open>if\<close>, whose \<open>else\<close> sends the received text.
  \<open>log_event\<close> and the logger calls only print and count for the console, and are left
  out here and in \<open>forward_to_client\<close>.
\<close>

fun forward_to_openai :: "globals \<Rightarrow> session \<Rightarrow> json \<Rightarrow> globals \<times> session \<times> exn option" where
  "forward_to_openai g s (JObj msg) =
     (let event_type = dict_get msg (ustr ''type'') JNull;
          base64_data = dict_get msg (ustr ''audio'') (JStr [])
      in if event_type = JStr (ustr ''input_audio_buffer.append'') \<and> \<not> truthy base64_data
         then (g, s, None)
         else
           let s1 = (if event_type = JStr (ustr ''input_audio_buffer.append'')
                     then s\<lparr>upstream := upstream s @
                              [Dumps (JObj [(ustr ''type'', JStr (ustr ''input_audio_buffer.append'')),
                                            (ustr ''audio'', base64_data)])],
                            vad_queue := vad_queue s @ [base64_data]\<rparr>
                     else s)
           in if event_type = JStr (ustr ''elevenlabs.config'')
              then (case dict_index msg (ustr ''enabled'') of
                      Inl e \<Rightarrow> (g, s1, Some e)
                    | Inr enabled \<Rightarrow>
                        let g1 = g\<lparr>use_elevenlabs := enabled\<rparr>
                        in (case dict_index msg (ustr ''voice_id'') of
                              Inl e \<Rightarrow> (g1, s1, Some e)
                            | Inr voice_id \<Rightarrow>
                                let g2 = g1\<lparr>elevenlabs_voice := voice_id\<rparr>;
                                    modalities =
                                      (if truthy (use_elevenlabs g2) then JArr [JStr (ustr ''text'')]
                                       else JArr [JStr (ustr ''text''), JStr (ustr ''audio'')])
                                in (g2,
                                    s1\<lparr>upstream := upstream s1 @
                                       [Dumps (session_update (JArr [JStr (ustr ''text'')]) (flow_tool s1))]\<rparr>,
                                    None)))
              else (g, s1\<lparr>upstream := upstream s1 @ [Verbatim (JObj msg)]\<rparr>, None))"
| "forward_to_openai g s msg =
     (g, s, Some (no_attribute_get msg))"

text \<open>
  The keyword arguments of \<open>elevenlabs_client.generate\<close> in \<open>run_tts\<close>, on the chunks
  that \<open>sync_gen\<close> yields: the voice and the model are read from the module variables
  when the call is made (\<open>text_arg\<close> is the keyword argument \<open>text\<close>).
\<close>

record tts_call =
  voice :: json
  output_format :: pystr
  text_arg :: "pystr list"
  model :: pystr

definition run_tts :: "globals \<Rightarrow> pystr list \<Rightarrow> tts_call" where
  "run_tts g sync_gen =
     \<lparr>voice = elevenlabs_voice g,
      output_format = ustr ''pcm_24000'',
      text_arg = sync_gen,
      model = elevenlabs_model g\<rparr>"

text \<open>
  A process serving several connections: the module variables once, and one state per
  connection. \<open>client_message p i msg\<close> lets connection \<open>i\<close> handle one client message;
  \<open>connection_tts p j chunks\<close> is the synthesis call that connection \<open>j\<close> makes next.
\<close>

record process =
  module_vars :: globals
  connections :: "session list"

definition client_message :: "process \<Rightarrow> nat \<Rightarrow> json \<Rightarrow> process" where
  "client_message p i msg =
     (if i < length (connections p)
      then (case forward_to_openai (module_vars p) (connections p ! i) msg of
              (g, s, e) \<Rightarrow> p\<lparr>module_vars := g, connections := (connections p)[i := s]\<rparr>)
      else p)"

definition connection_tts :: "process \<Rightarrow> nat \<Rightarrow> pystr list \<Rightarrow> tts_call" where
  "connection_tts p j chunks = run_tts (module_vars p) chunks"

section \<open>Audio constants and the resampler (\<open>voice_utils.py\<close>)\<close>

definition SAMPLE_RATE_24K :: nat where "SAMPLE_RATE_24K = 24000"
definition VAD_SAMPLE_RATE_16K :: nat where "VAD_SAMPLE_RATE_16K = 16000"
definition FRAME_DURATION_MS :: nat where "FRAME_DURATION_MS = 20"
definition BYTES_PER_SAMPLE :: nat where "BYTES_PER_SAMPLE = 2"

text \<open>
  \<open>int(SAMPLE_RATE_24K * FRAME_DURATION_MS / 1000) * BYTES_PER_SAMPLE\<close>: the quotient is
  exact, so truncating the float is integer division.
\<close>

definition BYTES_PER_24K_FRAME :: nat where
  "BYTES_PER_24K_FRAME = (SAMPLE_RATE_24K * FRAME_DURATION_MS div 1000) * BYTES_PER_SAMPLE"

definition BYTES_PER_16K_FRAME :: nat where
  "BYTES_PER_16K_FRAME = (VAD_SAMPLE_RATE_16K * FRAME_DURATION_MS div 1000) * BYTES_PER_SAMPLE"

text \<open>
  \<open>np.frombuffer(b, dtype=np.int16)\<close>: pairs of bytes, low byte first, read as signed
  16-bit samples; a buffer of odd length raises \<open>ValueError\<close>.
\<close>

fun int16_words :: "bytes \<Rightarrow> 16 word list" where
  "int16_words (lo # hi # rest) = word_cat hi lo # int16_words rest"
| "int16_words rest = []"

definition frombuffer_int16 :: "bytes \<Rightarrow> exn + int list" where
  "frombuffer_int16 b =
     (if even (length b) then Inr (map sint (int16_words b))
      else Inl (ValueError (ustr ''buffer size must be a multiple of element size'')))"

text \<open>\<open>np.rint\<close>: the nearest integer, a tie going to the even neighbour.\<close>

definition rint :: "real \<Rightarrow> int" where
  "rint x =
     (if x - of_int \<lfloor>x\<rfloor> < 1 / 2 then \<lfloor>x\<rfloor>
      else if 1 / 2 < x - of_int \<lfloor>x\<rfloor> then \<lfloor>x\<rfloor> + 1
      else if even \<lfloor>x\<rfloor> then \<lfloor>x\<rfloor> else \<lfloor>x\<rfloor> + 1)"

text \<open>
  \<open>.astype(np.int16)\<close> on integral floats, and \<open>.tobytes()\<close>, low byte first. The cast
  does not clamp. A value inside the 16-bit signed range is kept; a value outside it but
  inside the 32-bit signed range keeps its low 16 bits, so 40000 becomes -25536. Beyond
  the 32-bit range the conversion depends on the platform, and is the parameter \<open>far\<close>.
\<close>

definition astype_int16 :: "(int \<Rightarrow> 16 word) \<Rightarrow> int \<Rightarrow> 16 word" where
  "astype_int16 far i =
     (if - 2147483648 \<le> i \<and> i \<le> 2147483647 then word_of_int i else far i)"

definition int16_bytes :: "16 word \<Rightarrow> bytes" where
  "int16_bytes w = [ucast w, ucast (drop_bit 8 w)]"

definition tobytes :: "16 word list \<Rightarrow> bytes" where
  "tobytes ws = concat (map int16_bytes ws)"

text \<open>
  \<open>resample_24k_to_16k\<close>. \<open>scipy.signal.resample(x, num)\<close> is a library call, taken as
  the parameter \<open>resample\<close>: it raises, or it returns an array of \<open>num\<close> floats, given here
  by the function from an index below \<open>num\<close> to the sample there. The source passes the
  literal \<open>320\<close> for \<open>num\<close>, whatever the length of the frame.
\<close>

definition resample_24k_to_16k ::
  "(int \<Rightarrow> 16 word) \<Rightarrow> (int list \<Rightarrow> nat \<Rightarrow> exn + (nat \<Rightarrow> real)) \<Rightarrow> bytes \<Rightarrow> exn + bytes" where
  "resample_24k_to_16k far resample frame_24k_bytes =
     (case frombuffer_int16 frame_24k_bytes of
        Inl e \<Rightarrow> Inl e
      | Inr samples_24k \<Rightarrow>
          (case resample samples_24k 320 of
             Inl e \<Rightarrow> Inl e
           | Inr samples_16k \<Rightarrow>
               Inr (tobytes (map (\<lambda>k. astype_int16 far (rint (samples_16k k))) [0..<320]))))"

section \<open>VAD monitor: \<open>process_vad_audio\<close>\<close>

text \<open>
  The library calls of the monitor: \<open>base64.b64decode\<close>, the platform's conversion of
  far out-of-range values in \<open>astype\<close>, \<open>scipy.signal.resample\<close> and
  \<open>vad.is_speech\<close>. The detector object keeps state between calls, so \<open>is_speech\<close> takes
  and returns it; each call returns a verdict or raises.
\<close>

record 'v vad_libs =
  b64decode :: "json \<Rightarrow> exn + bytes"
  astype_far :: "int \<Rightarrow> 16 word"
  resample :: "int list \<Rightarrow> nat \<Rightarrow> exn + (nat \<Rightarrow> real)"
  is_speech :: "'v \<Rightarrow> bytes \<Rightarrow> nat \<Rightarrow> (exn + bool) \<times> 'v"

definition response_cancel :: json where
  "response_cancel = JObj [(ustr ''type'', JStr (ustr ''response.cancel''))]"

text \<open>
  The \<open>try\<close> block of the inner loop, for one frame already sliced off the accumulator.
  An exception of the resampler or of the detector is logged and the loop goes on
  (\<open>continue\<close>). The three components are the connection state, the detector's state and
  the local \<open>has_speech\<close>.
\<close>

definition vad_frame :: "'v vad_libs \<Rightarrow> session \<times> 'v \<times> bool \<Rightarrow> bytes \<Rightarrow> session \<times> 'v \<times> bool" where
  "vad_frame L st frame_24k =
     (case st of (s, vad, has_speech) \<Rightarrow>
        (case resample_24k_to_16k (astype_far L) (resample L) frame_24k of
           Inl e \<Rightarrow> (s, vad, has_speech)
         | Inr frame_16k \<Rightarrow>
             (case is_speech L vad frame_16k VAD_SAMPLE_RATE_16K of
                (Inl e, vad1) \<Rightarrow> (s, vad1, has_speech)
              | (Inr speech, vad1) \<Rightarrow>
                  if speech
                  then (if bot_speaking_flag s
                        then (s\<lparr>upstream := upstream s @ [Dumps response_cancel],
                                bot_speaking_flag := False\<rparr>, vad1, True)
                        else (s, vad1, True))
                  else (s, vad1, has_speech))))"

lemma vad_frame_buffer:
  "vad_audio_buffer (fst (vad_frame L (s, vad, h) f)) = vad_audio_buffer s"
  by (simp add: vad_frame_def split: sum.splits prod.splits)

text \<open>
  The inner loop \<open>while len(vad_audio_buffer) >= BYTES_PER_24K_FRAME\<close>. The last argument
  is not a variable of the source: it lists, in order, the frames handed to the
  resampler and the detector, so that results can speak about them.
\<close>

function process_frames ::
  "'v vad_libs \<Rightarrow> session \<Rightarrow> 'v \<Rightarrow> bool \<Rightarrow> bytes list \<Rightarrow> session \<times> 'v \<times> bool \<times> bytes list" where
  "process_frames L s vad has_speech seen =
     (if BYTES_PER_24K_FRAME \<le> length (vad_audio_buffer s)
      then (let frame_24k = take BYTES_PER_24K_FRAME (vad_audio_buffer s);
                s1 = s\<lparr>vad_audio_buffer := drop BYTES_PER_24K_FRAME (vad_audio_buffer s)\<rparr>;
                st = vad_frame L (s1, vad, has_speech) frame_24k
            in process_frames L (fst st) (fst (snd st)) (snd (snd st)) (seen @ [frame_24k]))
      else (s, vad, has_speech, seen))"
  by pat_completeness auto
termination
  by (relation "measure (\<lambda>(L, s, vad, has_speech, seen). length (vad_audio_buffer s))")
     (simp_all add: vad_frame_buffer BYTES_PER_24K_FRAME_def SAMPLE_RATE_24K_def
        FRAME_DURATION_MS_def BYTES_PER_SAMPLE_def)

declare process_frames.simps [simp del]

text \<open>
  One turn of the outer loop: take the next item off the VAD queue (\<open>None\<close>: the queue is
  empty and the task stays suspended in \<open>get\<close>), decode it (an exception here is not
  caught and ends the task), extend the accumulator and run the inner loop with
  \<open>has_speech = False\<close>. The time stamps serve the trace log only and are left out.
\<close>

definition process_vad_audio ::
  "'v vad_libs \<Rightarrow> session \<Rightarrow> 'v \<Rightarrow> (exn + session \<times> 'v \<times> bool \<times> bytes list) option" where
  "process_vad_audio L s vad =
     (case vad_queue s of
        [] \<Rightarrow> None
      | base64_data # q \<Rightarrow>
          Some (case b64decode L base64_data of
                  Inl e \<Rightarrow> Inl e
                | Inr raw_chunk_24k \<Rightarrow>
                    Inr (process_frames L
                           (s\<lparr>vad_queue := q,
                              vad_audio_buffer := vad_audio_buffer s @ raw_chunk_24k\<rparr>)
                           vad False [])))"

section \<open>Tool-call dispatcher: \<open>handle_function_call\<close>\<close>

text \<open>
  Modelled from the spec: the schema class \<open>InputValueRequest\<close>, declared in
  \<open>langflow.api.v1.schemas\<close> and not among the sources read here, is the input payload
  handed to the flow executor. It is taken to be the record of the four keyword
  arguments the dispatcher passes, unvalidated (\<open>input_type\<close> is the keyword \<open>type\<close>,
  \<open>session_id\<close> the keyword \<open>session\<close>).
\<close>

record input_value_request =
  input_value :: json
  components :: "pystr list"
  input_type :: pystr
  session_id :: pystr

text \<open>
  The calls out of the dispatcher: \<open>json.loads\<close>; \<open>uuid4\<close>, whose \<open>n\<close>-th draw is
  \<open>uuid4 n\<close>; the constructor \<open>UUID\<close>, which raises on a malformed identifier; and the
  flow executor \<open>build_flow\<close>, which raises or returns a response whose \<open>body_iterator\<close>
  yields lines and may itself raise along the way (an \<open>Inl\<close> in the list).
\<close>

record 'u tool_libs =
  json_loads :: "pystr \<Rightarrow> exn + json"
  uuid4 :: "nat \<Rightarrow> pystr"
  UUID :: "pystr \<Rightarrow> exn + 'u"
  build_flow :: "'u \<Rightarrow> input_value_request \<Rightarrow> exn + (exn + pystr) list"

text \<open>\<open>x.get(k, default)\<close> on the result of an earlier \<open>get\<close> of the chain.\<close>

definition then_get :: "exn + json \<Rightarrow> pystr \<Rightarrow> json \<Rightarrow> exn + json" where
  "then_get r k dflt = (case r of Inl e \<Rightarrow> Inl e | Inr x \<Rightarrow> py_get x k dflt)"

text \<open>
  \<open>event_data.get("data", {}).get("build_data", "").get("data", {}).get("results", {})
  .get("message", {}).get("text", "")\<close>
\<close>

definition text_part :: "json \<Rightarrow> exn + json" where
  "text_part event_data =
     then_get (then_get (then_get (then_get (then_get
       (py_get event_data (ustr ''data'') (JObj []))
         (ustr ''build_data'') (JStr []))
         (ustr ''data'') (JObj []))
         (ustr ''results'') (JObj []))
         (ustr ''message'') (JObj []))
         (ustr ''text'') (JStr [])"

text \<open>\<open>result += text_part\<close>, where \<open>result\<close> is a \<open>str\<close>.\<close>

fun str_add :: "pystr \<Rightarrow> json \<Rightarrow> exn + pystr" where
  "str_add result (JStr t) = Inr (result @ t)"
| "str_add result x =
     Inl (TypeError (ustr ''can only concatenate str (not '' @ [34] @ type_name x @ [34] @ ustr '') to str''))"

text \<open>
  The loop \<open>async for line in response.body_iterator\<close>: \<open>sent\<close> collects the
  \<open>flow.build.progress\<close> messages sent to the client so far, \<open>result\<close> the text so far.
  The loop ends with the text, or with the exception that left it; what was sent before
  stays sent.
\<close>

fun consume_body ::
  "(pystr \<Rightarrow> exn + json) \<Rightarrow> (exn + pystr) list \<Rightarrow> wire list \<Rightarrow> pystr \<Rightarrow> wire list \<times> (exn + pystr)" where
  "consume_body loads [] sent result = (sent, Inr result)"
| "consume_body loads (Inl e # rest) sent result = (sent, Inl e)"
| "consume_body loads (Inr line # rest) sent result =
     (if line = [] then consume_body loads rest sent result
      else (case loads line of
              Inl e \<Rightarrow> (sent, Inl e)
            | Inr event_data \<Rightarrow>
                let sent1 = sent @ [Dumps (JObj [(ustr ''type'', JStr (ustr ''flow.build.progress'')),
                                                 (ustr ''data'', event_data)])]
                in (case py_get event_data (ustr ''event'') JNull of
                      Inl e \<Rightarrow> (sent1, Inl e)
                    | Inr ev \<Rightarrow>
                        if ev = JStr (ustr ''end_vertex'')
                        then (case text_part event_data of
                                Inl e \<Rightarrow> (sent1, Inl e)
                              | Inr t \<Rightarrow>
                                  (case str_add result t of
                                     Inl e \<Rightarrow> (sent1, Inl e)
                                   | Inr result1 \<Rightarrow> consume_body loads rest sent1 result1))
                        else consume_body loads rest sent1 result)))"

definition function_call_output :: "json \<Rightarrow> pystr \<Rightarrow> json" where
  "function_call_output call_id output =
     JObj [(ustr ''type'', JStr (ustr ''conversation.item.create'')),
           (ustr ''item'',
              JObj [(ustr ''type'', JStr (ustr ''function_call_output'')),
                    (ustr ''call_id'', call_id),
                    (ustr ''output'', JStr output)])]"

definition response_create :: json where
  "response_create = JObj [(ustr ''type'', JStr (ustr ''response.create''))]"

text \<open>What one run of the dispatcher did: the executor calls, and the messages sent.\<close>

record 'u dispatched =
  executor_calls :: "('u \<times> input_value_request) list"
  to_client :: "wire list"
  to_upstream :: "wire list"

text \<open>
  The \<open>except Exception\<close> handler: one \<open>function_call_output\<close> carrying
  \<open>f"Error executing flow: {e!s}"\<close>, and no \<open>response.create\<close>.
\<close>

definition flow_failed ::
  "dict \<Rightarrow> ('u \<times> input_value_request) list \<Rightarrow> wire list \<Rightarrow> exn \<Rightarrow> 'u dispatched" where
  "flow_failed call calls sent e =
     \<lparr>executor_calls = calls,
      to_client = sent,
      to_upstream =
        [Dumps (function_call_output (dict_get call (ustr ''call_id'') JNull)
                  (ustr ''Error executing flow: '' @ exn_str e))]\<rparr>"

text \<open>
  \<open>handle_function_call\<close>, as the \<open>n\<close>-th task of its kind; \<open>call\<close> and \<open>call_args\<close> are its
  parameters \<open>function_call\<close> and \<open>function_call_args\<close>. Every statement of the
  \<open>try\<close> block that can raise leads to the handler. The arguments of \<open>build_flow\<close> are
  evaluated first, so a malformed \<open>flow_id\<close> raises before the executor is called.
\<close>

definition handle_function_call ::
  "'u tool_libs \<Rightarrow> nat \<Rightarrow> dict \<Rightarrow> pystr \<Rightarrow> pystr \<Rightarrow> 'u dispatched" where
  "handle_function_call libs n call call_args flow_id =
     (let conversation_id = uuid4 libs n
      in case (if call_args \<noteq> [] then json_loads libs call_args
               else Inr (JObj [])) of
           Inl e \<Rightarrow> flow_failed call [] [] e
         | Inr args \<Rightarrow>
             (case py_get args (ustr ''input'') JNull of
                Inl e \<Rightarrow> flow_failed call [] [] e
              | Inr inp \<Rightarrow>
                  let input_request =
                        \<lparr>input_value = inp, components = [], input_type = ustr ''chat'',
                         session_id = conversation_id\<rparr>
                  in (case UUID libs flow_id of
                        Inl e \<Rightarrow> flow_failed call [] [] e
                      | Inr fid \<Rightarrow>
                          (case build_flow libs fid input_request of
                             Inl e \<Rightarrow> flow_failed call [(fid, input_request)] [] e
                           | Inr body \<Rightarrow>
                               (case consume_body (json_loads libs) body [] [] of
                                  (sent, Inl e) \<Rightarrow>
                                    flow_failed call [(fid, input_request)] sent e
                                | (sent, Inr result) \<Rightarrow>
                                    \<lparr>executor_calls = [(fid, input_request)],
                                     to_client = sent,
                                     to_upstream =
                                       [Dumps (function_call_output
                                                 (dict_get call (ustr ''call_id'') JNull)
                                                 result),
                                        Dumps response_create]\<rparr>)))))"

section \<open>Upstream to client: \<open>forward_to_client\<close>\<close>

text \<open>
  One turn of the loop of \<open>forward_to_client\<close>, on the value \<open>json.loads\<close> gave for the
  received text. The result is the connection state, the arguments of the
  \<open>handle_function_call\<close> task created in this turn, if one was, and the exception that
  left the loop, if one did. Every event is first sent on to the client; an event of a
  type the chain does not name is sent a second time by the final \<open>else\<close>.
  \<open>text_delta_task\<close> holds a task from the first text delta until \<open>response.text.done\<close>.
\<close>

fun forward_to_client :: "session \<Rightarrow> json \<Rightarrow> session \<times> (dict \<times> pystr) option \<times> exn option" where
  "forward_to_client s (JObj event) =
     (let event_type = dict_get event (ustr ''type'') JNull;
          s0 = s\<lparr>client := client s @ [Verbatim (JObj event)]\<rparr>
      in if event_type = JStr (ustr ''response.text.delta'')
         then (s0\<lparr>text_delta_queue := text_delta_queue s0 @ [dict_get event (ustr ''delta'') (JStr [])],
                  text_delta_task := True\<rparr>, None, None)
         else if event_type = JStr (ustr ''response.text.done'')
         then (s0\<lparr>text_delta_queue := text_delta_queue s0 @ [JNull], text_delta_task := False\<rparr>,
               None, None)
         else if event_type = JStr (ustr ''response.output_item.added'')
         then (case dict_get event (ustr ''item'') (JObj []) of
                 JObj item \<Rightarrow>
                   if dict_get item (ustr ''type'') JNull = JStr (ustr ''function_call'')
                   then (s0\<lparr>bot_speaking_flag := True, function_call := Some item,
                            function_call_args := []\<rparr>, None, None)
                   else (s0\<lparr>bot_speaking_flag := True\<rparr>, None, None)
               | x \<Rightarrow>
                   (s0\<lparr>bot_speaking_flag := True\<rparr>, None, Some (no_attribute_get x)))
         else if event_type = JStr (ustr ''response.output_item.done'')
         then (s0\<lparr>bot_speaking_flag := False\<rparr>, None, None)
         else if event_type = JStr (ustr ''response.function_call_arguments.delta'')
         then (case str_add (function_call_args s0) (dict_get event (ustr ''delta'') (JStr [])) of
                 Inl e \<Rightarrow> (s0, None, Some e)
               | Inr args \<Rightarrow> (s0\<lparr>function_call_args := args\<rparr>, None, None))
         else if event_type = JStr (ustr ''response.function_call_arguments.done'')
         then (case function_call s0 of
                 None \<Rightarrow> (s0, None, None)
               | Some item \<Rightarrow>
                   if item \<noteq> []
                   then (s0\<lparr>function_call := None, function_call_args := []\<rparr>,
                         Some (item, function_call_args s0), None)
                   else (s0, None, None))
         else if event_type = JStr (ustr ''response.audio.delta'')
         then (s0, None, None)
         else if event_type = JStr (ustr ''error'')
         then (s0, None, None)
         else (s0\<lparr>client := client s0 @ [Verbatim (JObj event)]\<rparr>, None, None))"
| "forward_to_client s event =
     (s, None, Some (no_attribute_get event))"

text \<open>
  The loop of \<open>forward_to_client\<close> over the events received, with each
  \<open>handle_function_call\<close> task run when it is created: the task's arguments are fixed at
  that point, and its messages join those of the connection. The state carries the
  executor calls made so far and the number of tasks created.
\<close>

fun run_forward_to_client ::
  "'u tool_libs \<Rightarrow> pystr \<Rightarrow> session \<times> ('u \<times> input_value_request) list \<times> nat \<Rightarrow> json list
     \<Rightarrow> (session \<times> ('u \<times> input_value_request) list \<times> nat) \<times> exn option" where
  "run_forward_to_client libs flow_id st [] = (st, None)"
| "run_forward_to_client libs flow_id (s, calls, n) (event # events) =
     (case forward_to_client s event of
        (s1, task, Some e) \<Rightarrow> ((s1, calls, n), Some e)
      | (s1, None, None) \<Rightarrow> run_forward_to_client libs flow_id (s1, calls, n) events
      | (s1, Some (item, args), None) \<Rightarrow>
          (let d = handle_function_call libs n item args flow_id
           in run_forward_to_client libs flow_id
                (s1\<lparr>client := client s1 @ to_client d, upstream := upstream s1 @ to_upstream d\<rparr>,
                 calls @ executor_calls d, Suc n)
                events))"

section \<open>Text chunker\<close>

text \<open>
  \<open>splitters = (".", ",", "?", "!", ";", ":", "\<emdash>", "-", "(", ")", "[", "]", "}", " ")\<close>
  as in \<open>sync_text_chunker\<close> and \<open>text_chunker_with_timeout\<close>; 8212 is the em dash.
\<close>

definition splitters :: "nat list" where
  "splitters = ustr ''.,?!;:'' @ [8212] @ ustr ''-()[]} ''"

text \<open>\<open>buffer + " "\<close>: 32 is the space.\<close>

definition flush :: "pystr \<Rightarrow> pystr" where
  "flush buffer = buffer @ [32]"

text \<open>
  What one \<open>sync_queue_obj.get(timeout=timeout)\<close> does: it returns an item (a text
  piece, or \<open>None\<close>, the end-of-stream sentinel) or raises \<open>queue.Empty\<close>.
\<close>

datatype queue_get = Item "pystr option" | Empty

text \<open>
  The generator \<open>sync_text_chunker\<close>, run against the outcomes of its successive
  \<open>get\<close> calls. \<open>out\<close> collects the chunks yielded so far, in order. The result is the
  chunks yielded and the generator's state when the outcomes are used up: \<open>Some buffer\<close>
  when it is blocked in the next \<open>get\<close> holding \<open>buffer\<close>, \<open>None\<close> when it has returned.
  On the sentinel the loop yields the buffer and breaks without clearing it, and the
  statement after the loop yields a non-empty buffer again.
\<close>

fun sync_text_chunker :: "pystr \<Rightarrow> pystr list \<Rightarrow> queue_get list \<Rightarrow> pystr list \<times> pystr option" where
  "sync_text_chunker buffer out [] = (out, Some buffer)"
| "sync_text_chunker buffer out (Empty # q) =
     (if buffer \<noteq> [] then sync_text_chunker [] (out @ [flush buffer]) q
      else sync_text_chunker buffer out q)"
| "sync_text_chunker buffer out (Item None # q) =
     (let out1 = (if buffer \<noteq> [] then out @ [flush buffer] else out);
          out2 = (if buffer \<noteq> [] then out1 @ [flush buffer] else out1)
      in (out2, None))"
| "sync_text_chunker buffer out (Item (Some text) # q) =
     (if buffer \<noteq> [] \<and> last buffer \<in> set splitters
        then sync_text_chunker text (out @ [flush buffer]) q
      else if text \<noteq> [] \<and> hd text \<in> set splitters
        then sync_text_chunker (tl text) (out @ [flush (buffer @ [hd text])]) q
      else sync_text_chunker (buffer @ text) out q)"

text \<open>
  What one \<open>asyncio.wait_for(ait.__anext__(), timeout)\<close> does in
  \<open>text_chunker_with_timeout\<close>: it returns the next piece (or \<open>None\<close>), raises
  \<open>asyncio.TimeoutError\<close>, or raises \<open>StopAsyncIteration\<close> when the source is exhausted.
\<close>

datatype anext = Next "pystr option" | TimeoutError | StopAsyncIteration

fun text_chunker_with_timeout :: "pystr \<Rightarrow> pystr list \<Rightarrow> anext list \<Rightarrow> pystr list \<times> pystr option" where
  "text_chunker_with_timeout buffer out [] = (out, Some buffer)"
| "text_chunker_with_timeout buffer out (TimeoutError # q) =
     (if buffer \<noteq> [] then text_chunker_with_timeout [] (out @ [flush buffer]) q
      else text_chunker_with_timeout buffer out q)"
| "text_chunker_with_timeout buffer out (StopAsyncIteration # q) =
     ((if buffer \<noteq> [] then out @ [flush buffer] else out), None)"
| "text_chunker_with_timeout buffer out (Next None # q) =
     (let out1 = (if buffer \<noteq> [] then out @ [flush buffer] else out);
          out2 = (if buffer \<noteq> [] then out1 @ [flush buffer] else out1)
      in (out2, None))"
| "text_chunker_with_timeout buffer out (Next (Some text) # q) =
     (if buffer \<noteq> [] \<and> last buffer \<in> set splitters
        then text_chunker_with_timeout text (out @ [flush buffer]) q
      else if text \<noteq> [] \<and> hd text \<in> set splitters
        then text_chunker_with_timeout (tl text) (out @ [flush (buffer @ [hd text])]) q
      else text_chunker_with_timeout (buffer @ text) out q)"

section \<open>Observing what was sent\<close>

text \<open>
  The messages a step added to the upstream socket, the \<open>modalities\<close> entry of a
  \<open>session.update\<close>, and the messages of type \<open>input_audio_buffer.append\<close>.
\<close>

definition sent_since :: "session \<Rightarrow> session \<Rightarrow> wire list" where
  "sent_since s s' = drop (length (upstream s)) (upstream s')"

definition modalities_of :: "wire \<Rightarrow> json" where
  "modalities_of w =
     (case wire_json w of
        JObj d \<Rightarrow> (case dict_get d (ustr ''session'') JNull of
                     JObj c \<Rightarrow> dict_get c (ustr ''modalities'') JNull
                   | _ \<Rightarrow> JNull)
      | _ \<Rightarrow> JNull)"

definition text_only_update :: "wire \<Rightarrow> bool" where
  "text_only_update w \<longleftrightarrow>
     wire_type w = JStr (ustr ''session.update'') \<and> modalities_of w = JArr [JStr (ustr ''text'')]"

definition is_audio_append :: "wire \<Rightarrow> bool" where
  "is_audio_append w \<longleftrightarrow> wire_type w = JStr (ustr ''input_audio_buffer.append'')"

text \<open>Sample inputs: client messages, and a process with two connections.\<close>

definition audio_append :: dict where
  "audio_append = [(ustr ''type'', JStr (ustr ''input_audio_buffer.append'')),
                   (ustr ''audio'', JStr (ustr ''AAAA''))]"

definition config_off :: dict where
  "config_off = [(ustr ''type'', JStr (ustr ''elevenlabs.config'')),
                 (ustr ''enabled'', JBool False),
                 (ustr ''voice_id'', JStr (ustr ''v1''))]"

definition config_on :: dict where
  "config_on = [(ustr ''type'', JStr (ustr ''elevenlabs.config'')),
                (ustr ''enabled'', JBool True),
                (ustr ''voice_id'', JStr (ustr ''v2''))]"

definition two_connections :: process where
  "two_connections =
     \<lparr>module_vars = module_init,
      connections = [session_open (make_flow_tool JNull), session_open (make_flow_tool JNull)]\<rparr>"




text \<open>
  Sample inputs for the monitor and the resampler: a resampler that returns silence, one
  that returns 40000 (outside the 16-bit range) at index 0 and one half elsewhere;
  library calls that decode every item to 2000 zero bytes, resample to silence and take
  every frame for speech; and a connection whose assistant is speaking, with one item
  on the VAD queue.
\<close>

definition zero_resample :: "int list \<Rightarrow> nat \<Rightarrow> exn + (nat \<Rightarrow> real)" where
  "zero_resample xs n = Inr (\<lambda>k. 0)"

definition loud_resample :: "int list \<Rightarrow> nat \<Rightarrow> exn + (nat \<Rightarrow> real)" where
  "loud_resample xs n = Inr (\<lambda>k. if k = 0 then 40000 else 1 / 2)"

definition sample_libs :: "unit vad_libs" where
  "sample_libs =
     \<lparr>b64decode = (\<lambda>x. Inr (replicate 2000 0)),
      astype_far = (\<lambda>i. 0),
      resample = (\<lambda>xs n. Inr (\<lambda>k. 0)),
      is_speech = (\<lambda>vad frame rate. (Inr True, vad))\<rparr>"

definition speaking_session :: session where
  "speaking_session =
     (session_open (make_flow_tool JNull))
       \<lparr>upstream := [], vad_queue := [JStr (ustr ''AAAA'')], bot_speaking_flag := True\<rparr>"


text \<open>
  The \<open>function_call_output\<close> items among messages and the call they answer; the events
  that carry a piece of the arguments, or end them.
\<close>

definition is_function_call_output :: "wire \<Rightarrow> bool" where
  "is_function_call_output w =
     (case wire_json w of
        JObj d \<Rightarrow>
          (case dict_get d (ustr ''item'') JNull of
             JObj item \<Rightarrow>
               dict_get d (ustr ''type'') JNull = JStr (ustr ''conversation.item.create'')
               \<and> dict_get item (ustr ''type'') JNull = JStr (ustr ''function_call_output'')
           | _ \<Rightarrow> False)
      | _ \<Rightarrow> False)"

definition output_call_id :: "wire \<Rightarrow> json" where
  "output_call_id w =
     (case wire_json w of
        JObj d \<Rightarrow>
          (case dict_get d (ustr ''item'') JNull of
             JObj item \<Rightarrow> dict_get item (ustr ''call_id'') JNull
           | _ \<Rightarrow> JNull)
      | _ \<Rightarrow> JNull)"

definition is_args_delta :: "json \<Rightarrow> pystr \<Rightarrow> bool" where
  "is_args_delta event d =
     (case event of
        JObj ev \<Rightarrow>
          dict_get ev (ustr ''type'') JNull = JStr (ustr ''response.function_call_arguments.delta'')
          \<and> dict_get ev (ustr ''delta'') (JStr []) = JStr d
      | _ \<Rightarrow> False)"

definition is_args_done :: "json \<Rightarrow> bool" where
  "is_args_done event =
     (case event of
        JObj ev \<Rightarrow>
          dict_get ev (ustr ''type'') JNull = JStr (ustr ''response.function_call_arguments.done'')
      | _ \<Rightarrow> False)"

text \<open>
  The argument text \<open>{"input":"hi"}\<close>, and the requests the dispatcher builds from the
  input \<open>"hi"\<close> and from no input.
\<close>

definition hi_arguments :: pystr where
  \<open>hi_arguments = ustr ''{"input":"hi"}''\<close>

definition hi_request :: "pystr \<Rightarrow> input_value_request" where
  "hi_request conversation_id =
     \<lparr>input_value = JStr (ustr ''hi''), components = [], input_type = ustr ''chat'',
      session_id = conversation_id\<rparr>"

definition none_request :: "pystr \<Rightarrow> input_value_request" where
  "none_request conversation_id =
     \<lparr>input_value = JNull, components = [], input_type = ustr ''chat'',
      session_id = conversation_id\<rparr>"

definition chat_request :: "json \<Rightarrow> pystr \<Rightarrow> input_value_request" where
  "chat_request inp conversation_id =
     \<lparr>input_value = inp, components = [], input_type = ustr ''chat'',
      session_id = conversation_id\<rparr>"

text \<open>
  The arguments as the dispatcher reads them (\<open>json.loads(function_call_args) if
  function_call_args else {}\<close>), and the message its \<open>except\<close> handler sends for the
  exception \<open>e\<close>.
\<close>

definition loaded_args :: "'u tool_libs \<Rightarrow> pystr \<Rightarrow> exn + json" where
  "loaded_args libs call_args =
     (if call_args \<noteq> [] then json_loads libs call_args else Inr (JObj []))"

definition error_output :: "dict \<Rightarrow> exn \<Rightarrow> wire" where
  "error_output call e =
     Dumps (function_call_output (dict_get call (ustr ''call_id'') JNull)
              (ustr ''Error executing flow: '' @ exn_str e))"

text \<open>
  Reading one item of the response stream: the exception it raises, if any (the iterator
  itself raising, a line that does not parse, an event that is no object, an
  \<open>end_vertex\<close> event whose chain of \<open>get\<close> calls fails or whose text is no \<open>str\<close>), and the
  text it adds to the result when it raises nothing. Neither depends on the lines read
  before.
\<close>

definition item_raises :: "(pystr \<Rightarrow> exn + json) \<Rightarrow> exn + pystr \<Rightarrow> exn option" where
  "item_raises loads item =
     (case item of
        Inl e \<Rightarrow> Some e
      | Inr line \<Rightarrow>
          if line = [] then None
          else (case loads line of
                  Inl e \<Rightarrow> Some e
                | Inr event_data \<Rightarrow>
                    (case py_get event_data (ustr ''event'') JNull of
                       Inl e \<Rightarrow> Some e
                     | Inr ev \<Rightarrow>
                         if ev = JStr (ustr ''end_vertex'')
                         then (case text_part event_data of
                                 Inl e \<Rightarrow> Some e
                               | Inr t \<Rightarrow>
                                   (case str_add [] t of Inl e \<Rightarrow> Some e | Inr r \<Rightarrow> None))
                         else None)))"

definition item_text :: "(pystr \<Rightarrow> exn + json) \<Rightarrow> exn + pystr \<Rightarrow> pystr" where
  "item_text loads item =
     (case item of
        Inl e \<Rightarrow> []
      | Inr line \<Rightarrow>
          if line = [] then []
          else (case loads line of
                  Inl e \<Rightarrow> []
                | Inr event_data \<Rightarrow>
                    (case py_get event_data (ustr ''event'') JNull of
                       Inl e \<Rightarrow> []
                     | Inr ev \<Rightarrow>
                         if ev = JStr (ustr ''end_vertex'')
                         then (case text_part event_data of
                                 Inr (JStr t) \<Rightarrow> t
                               | _ \<Rightarrow> [])
                         else [])))"

text \<open>
  Sample inputs for the dispatcher: the arguments in two pieces, the event that ends
  them, a connection with a pending call, other arguments, a line of the response stream
  with the event it parses to, and library calls: the executor raises on the input
  \<open>"hi"\<close>, returns a stream that breaks after two lines when there is no input, and a
  stream of two lines otherwise; only the flow identifier \<open>flow-1\<close> is well formed.
\<close>

definition hi_deltas :: "pystr list" where
  \<open>hi_deltas = [ustr ''{"input":'', ustr ''"hi"}'']\<close>

definition sample_delta_events :: "json list" where
  "sample_delta_events =
     map (\<lambda>d. JObj [(ustr ''type'', JStr (ustr ''response.function_call_arguments.delta'')),
                     (ustr ''delta'', JStr d)]) hi_deltas"

definition sample_done_event :: json where
  "sample_done_event =
     JObj [(ustr ''type'', JStr (ustr ''response.function_call_arguments.done''))]"

definition sample_call :: dict where
  "sample_call = [(ustr ''type'', JStr (ustr ''function_call'')),
                  (ustr ''call_id'', JStr (ustr ''call_1'')),
                  (ustr ''name'', JStr (ustr ''execute_flow''))]"

definition pending_session :: session where
  "pending_session =
     (session_open (make_flow_tool JNull))
       \<lparr>bot_speaking_flag := True, function_call := Some sample_call\<rparr>"

definition go_arguments :: pystr where
  \<open>go_arguments = ustr ''{"input":"go"}''\<close>

definition answer_line :: pystr where
  \<open>answer_line = ustr ''{"event":"end_vertex","data":{"build_data":{"data":{"results":{"message":{"text":"ok"}}}}}}''\<close>

definition answer_event :: json where
  "answer_event =
     JObj [(ustr ''event'', JStr (ustr ''end_vertex'')),
           (ustr ''data'',
              JObj [(ustr ''build_data'',
                JObj [(ustr ''data'',
                  JObj [(ustr ''results'',
                    JObj [(ustr ''message'',
                      JObj [(ustr ''text'', JStr (ustr ''ok''))])])])])])]"

definition sample_tool_libs :: "pystr tool_libs" where
  "sample_tool_libs =
     \<lparr>json_loads = (\<lambda>s. if s = hi_arguments then Inr (JObj [(ustr ''input'', JStr (ustr ''hi''))])
                          else if s = go_arguments then Inr (JObj [(ustr ''input'', JStr (ustr ''go''))])
                          else if s = ustr ''[1]'' then Inr (JArr [JInt 1])
                          else if s = answer_line then Inr answer_event
                          else Inl (JSONDecodeError (ustr ''Expecting value''))),
      uuid4 = (\<lambda>n. ustr ''conversation''),
      UUID = (\<lambda>s. if s = ustr ''flow-1'' then Inr s
                     else Inl (ValueError (ustr ''badly formed hexadecimal UUID string''))),
      build_flow = (\<lambda>fid request.
                      if input_value request = JStr (ustr ''hi'') then Inl (Exception (ustr ''boom''))
                      else if input_value request = JNull
                      then Inr [Inr answer_line, Inr [], Inl (Exception (ustr ''stream broke''))]
                      else Inr [Inr answer_line, Inr []])\<rparr>"

section \<open>Text chunker: results\<close>

lemma splitters_code_points:
  "set splitters = {46, 44, 63, 33, 59, 58, 8212, 45, 40, 41, 91, 93, 125, 32}"
  by (simp add: splitters_def)

lemma sync_text_chunker_idle:
  "sync_text_chunker [] out (replicate n Empty) = (out, Some [])"
  by (induction n) simp_all

lemma text_chunker_with_timeout_idle:
  "text_chunker_with_timeout [] out (replicate n TimeoutError) = (out, Some [])"
  by (induction n) simp_all

text \<open>
  C3 (as stated, refuted). On the pieces \<open>"Hello"\<close>, \<open>","\<close>, \<open>" world"\<close>, \<open>"."\<close> and
  then the end-of-stream sentinel, with no timeout in between, the chunker does not
  yield two chunks.
\<close>

theorem chunker_hello_world_not_two_chunks:
  "length (fst (sync_text_chunker [] []
      [Item (Some (ustr ''Hello'')), Item (Some (ustr '','')),
       Item (Some (ustr '' world'')), Item (Some (ustr ''.'')), Item None])) \<noteq> 2
   \<and> length (fst (text_chunker_with_timeout [] []
      [Next (Some (ustr ''Hello'')), Next (Some (ustr '','')),
       Next (Some (ustr '' world'')), Next (Some (ustr ''.'')), Next None])) \<noteq> 2"
  by (simp add: splitters_def flush_def)

text \<open>
  C3 (amended). On that input both chunkers yield exactly three chunks and then return:
  \<open>"Hello, "\<close>, ending after the comma; \<open>"  "\<close>, two spaces, emitted because the piece
  \<open>" world"\<close> starts with the boundary character space while the buffer is empty; and
  \<open>"world. "\<close>, ending after the full stop. Each chunk is non-empty and ends in a space.
\<close>

theorem chunker_hello_world_three_chunks:
  "sync_text_chunker [] []
      [Item (Some (ustr ''Hello'')), Item (Some (ustr '','')),
       Item (Some (ustr '' world'')), Item (Some (ustr ''.'')), Item None]
     = ([ustr ''Hello, '', ustr ''  '', ustr ''world. ''], None)
   \<and> text_chunker_with_timeout [] []
      [Next (Some (ustr ''Hello'')), Next (Some (ustr '','')),
       Next (Some (ustr '' world'')), Next (Some (ustr ''.'')), Next None]
     = ([ustr ''Hello, '', ustr ''  '', ustr ''world. ''], None)
   \<and> list_all (\<lambda>c. c \<noteq> [] \<and> last c = 32)
        [ustr ''Hello, '', ustr ''  '', ustr ''world. '']"
  by (simp add: splitters_def flush_def)

text \<open>
  C6. The single piece \<open>"partial"\<close> followed by a timeout (no piece within the flush
  window) yields exactly one chunk, \<open>"partial "\<close>, although no boundary character was
  seen, and leaves the chunker waiting with an empty buffer. Any number \<open>n\<close> of further
  timeouts yields nothing more, and neither does the end of the stream after them (the
  sentinel, or for the asynchronous chunker the exhausted source).
\<close>

theorem chunker_timeout_flush:
  "sync_text_chunker [] [] (Item (Some (ustr ''partial'')) # Empty # replicate n Empty)
     = ([ustr ''partial ''], Some [])
   \<and> sync_text_chunker [] []
        (Item (Some (ustr ''partial'')) # Empty # replicate n Empty @ [Item None])
     = ([ustr ''partial ''], None)
   \<and> text_chunker_with_timeout [] []
        (Next (Some (ustr ''partial'')) # TimeoutError # replicate n TimeoutError)
     = ([ustr ''partial ''], Some [])
   \<and> text_chunker_with_timeout [] []
        (Next (Some (ustr ''partial'')) # TimeoutError # replicate n TimeoutError @ [Next None])
     = ([ustr ''partial ''], None)
   \<and> text_chunker_with_timeout [] []
        (Next (Some (ustr ''partial'')) # TimeoutError # replicate n TimeoutError @ [StopAsyncIteration])
     = ([ustr ''partial ''], None)"
proof -
  have first: "hd (ustr ''partial'') \<notin> set splitters"
    by (simp add: splitters_def)
  have s_end: "sync_text_chunker [] out (replicate n Empty @ [Item None]) = (out, None)" for out
    by (induction n) simp_all
  have a_end: "text_chunker_with_timeout [] out (replicate n TimeoutError @ [Next None]) = (out, None)" for out
    by (induction n) simp_all
  have a_stop: "text_chunker_with_timeout [] out (replicate n TimeoutError @ [StopAsyncIteration]) = (out, None)" for out
    by (induction n) simp_all
  show ?thesis
    using first
    by (simp add: sync_text_chunker_idle text_chunker_with_timeout_idle s_end a_end a_stop flush_def)
qed

text \<open>
  C8 (as stated, refuted). With the buffer \<open>"a,"\<close> (what the single piece \<open>"a,"\<close> leaves
  behind) an empty piece is not a no-op: the chunker does not stay silent with its
  buffer unchanged.
\<close>

theorem chunker_empty_fragment_not_noop:
  "sync_text_chunker (ustr ''a,'') [] [Item (Some [])] \<noteq> ([], Some (ustr ''a,''))
   \<and> sync_text_chunker [] [] [Item (Some (ustr ''a,'')), Item (Some [])]
       = ([ustr ''a, ''], Some [])"
  by (simp add: splitters_def flush_def)

text \<open>
  C8 (amended). The chunkers are total on string pieces: no operation of theirs raises.
  An empty piece emits no chunk and leaves the buffer unchanged when the buffer is empty
  or does not end in a boundary character; when the buffer ends in a boundary character,
  the empty piece makes the chunker emit \<open>buffer + " "\<close> and reset the buffer to empty.
\<close>

theorem chunker_empty_fragment:
  "sync_text_chunker buffer out (Item (Some []) # q) =
     (if buffer \<noteq> [] \<and> last buffer \<in> set splitters
      then sync_text_chunker [] (out @ [buffer @ [32]]) q
      else sync_text_chunker buffer out q)
   \<and> text_chunker_with_timeout buffer out (Next (Some []) # r) =
     (if buffer \<noteq> [] \<and> last buffer \<in> set splitters
      then text_chunker_with_timeout [] (out @ [buffer @ [32]]) r
      else text_chunker_with_timeout buffer out r)"
  by (simp add: flush_def)

section \<open>Client to upstream: results\<close>

lemma text_only_update_session_update:
  "text_only_update (Dumps (session_update (JArr [JStr (ustr ''text'')]) tool))"
  by (simp add: text_only_update_def modalities_of_def wire_type_def session_update_def dict_get_def)

lemma forward_config:
  assumes "dict_get msg (ustr ''type'') JNull = JStr (ustr ''elevenlabs.config'')"
    and "dict_index msg (ustr ''enabled'') = Inr enabled"
    and "dict_index msg (ustr ''voice_id'') = Inr voice_id"
  shows "forward_to_openai g s (JObj msg) =
     (g\<lparr>use_elevenlabs := enabled, elevenlabs_voice := voice_id\<rparr>,
      s\<lparr>upstream := upstream s @ [Dumps (session_update (JArr [JStr (ustr ''text'')]) (flow_tool s))]\<rparr>,
      None)"
  using assms by (simp add: Let_def)

lemma forward_config_sent:
  assumes "dict_get msg (ustr ''type'') JNull = JStr (ustr ''elevenlabs.config'')"
  shows "sent_since s (fst (snd (forward_to_openai g s (JObj msg)))) = [] \<or>
         sent_since s (fst (snd (forward_to_openai g s (JObj msg)))) = [Dumps (session_update (JArr [JStr (ustr ''text'')]) (flow_tool s))]"
  using assms by (simp add: Let_def sent_since_def split: sum.splits)

lemma forward_audio:
  assumes "dict_get msg (ustr ''type'') JNull = JStr (ustr ''input_audio_buffer.append'')"
    and "truthy (dict_get msg (ustr ''audio'') (JStr []))"
  shows "forward_to_openai g s (JObj msg) =
     (g,
      s\<lparr>upstream := upstream s @
           [Dumps (JObj [(ustr ''type'', JStr (ustr ''input_audio_buffer.append'')),
                         (ustr ''audio'', dict_get msg (ustr ''audio'') (JStr []))]),
            Verbatim (JObj msg)],
        vad_queue := vad_queue s @ [dict_get msg (ustr ''audio'') (JStr [])]\<rparr>,
      None)"
  using assms by (simp add: Let_def)

text \<open>
  C4 (the code departs from the claim). A client message of type
  \<open>input_audio_buffer.append\<close> with the audio \<open>"AAAA"\<close> puts the audio on the VAD
  queue, but it reaches the upstream socket twice: once rebuilt by the audio branch, and
  once more as the received text, through the \<open>else\<close> of the \<open>if\<close> that follows.
\<close>

theorem audio_append_sent_twice:
  "sent_since (session_open (make_flow_tool JNull))
      (fst (snd (forward_to_openai module_init (session_open (make_flow_tool JNull)) (JObj audio_append))))
     = [Dumps (JObj audio_append), Verbatim (JObj audio_append)]
   \<and> length (filter is_audio_append
        (sent_since (session_open (make_flow_tool JNull))
          (fst (snd (forward_to_openai module_init (session_open (make_flow_tool JNull)) (JObj audio_append))))))
     = 2
   \<and> vad_queue (fst (snd (forward_to_openai module_init (session_open (make_flow_tool JNull)) (JObj audio_append))))
     = [JStr (ustr ''AAAA'')]"
  by (simp add: audio_append_def dict_get_def Let_def sent_since_def session_open_def
        is_audio_append_def wire_type_def)

text \<open>
  C9 (as stated, refuted). With two connections open, an \<open>elevenlabs.config\<close> message
  handled on connection 0 changes the voice of the synthesis call that connection 1
  makes, and the backend flag that connection 1 reads.
\<close>

theorem config_leaks_to_other_connection:
  "voice (connection_tts (client_message two_connections 0 (JObj config_on)) 1 [])
     \<noteq> voice (connection_tts two_connections 1 [])
   \<and> use_elevenlabs (module_vars (client_message two_connections 0 (JObj config_on)))
     \<noteq> use_elevenlabs (module_vars two_connections)"
  by (simp add: connection_tts_def client_message_def two_connections_def run_tts_def
        config_on_def dict_get_def dict_index_def module_init_def Let_def)

text \<open>
  C9 (amended). Backend selection and voice are variables of the module, one copy per
  process: an \<open>elevenlabs.config\<close> message carrying \<open>enabled\<close> and \<open>voice_id\<close>, handled
  on any connection \<open>i\<close>, sets the flag to \<open>enabled\<close> and makes \<open>voice_id\<close> the voice of
  the next synthesis call of every connection \<open>j\<close>.
\<close>

theorem config_is_process_wide:
  assumes "i < length (connections p)"
    and "dict_get msg (ustr ''type'') JNull = JStr (ustr ''elevenlabs.config'')"
    and "dict_index msg (ustr ''enabled'') = Inr enabled"
    and "dict_index msg (ustr ''voice_id'') = Inr voice_id"
  shows "voice (connection_tts (client_message p i (JObj msg)) j chunks) = voice_id
     \<and> use_elevenlabs (module_vars (client_message p i (JObj msg))) = enabled"
  using assms(1) forward_config [OF assms(2-4), of "module_vars p" "connections p ! i"]
  by (simp add: connection_tts_def client_message_def run_tts_def)

theorem config_is_process_wide_witness:
  "(0::nat) < length (connections two_connections)
   \<and> voice (connection_tts (client_message two_connections 0 (JObj config_on)) 1 [ustr ''Hi. '']) = JStr (ustr ''v2'')
   \<and> use_elevenlabs (module_vars (client_message two_connections 0 (JObj config_on))) = JBool True"
proof -
  have i: "(0::nat) < length (connections two_connections)"
    by (simp add: two_connections_def)
  have t: "dict_get config_on (ustr ''type'') JNull = JStr (ustr ''elevenlabs.config'')"
    by (simp add: config_on_def dict_get_def)
  have e: "dict_index config_on (ustr ''enabled'') = Inr (JBool True)"
    by (simp add: config_on_def dict_index_def)
  have v: "dict_index config_on (ustr ''voice_id'') = Inr (JStr (ustr ''v2''))"
    by (simp add: config_on_def dict_index_def)
  from config_is_process_wide [OF i t e v, of 1 "[ustr ''Hi. '']"] i show ?thesis by simp
qed

text \<open>
  C10. Whatever an \<open>elevenlabs.config\<close> message holds, every message its handling sends
  upstream is a \<open>session.update\<close> whose \<open>modalities\<close> is exactly \<open>["text"]\<close>; when the
  message carries \<open>enabled\<close> and \<open>voice_id\<close>, exactly one such message is sent, for any
  value of \<open>enabled\<close>, false included.
\<close>

theorem config_modalities:
  assumes "dict_get msg (ustr ''type'') JNull = JStr (ustr ''elevenlabs.config'')"
  shows "list_all text_only_update (sent_since s (fst (snd (forward_to_openai g s (JObj msg)))))
     \<and> (dict_index msg (ustr ''enabled'') = Inr enabled \<and> dict_index msg (ustr ''voice_id'') = Inr voice_id
          \<longrightarrow> sent_since s (fst (snd (forward_to_openai g s (JObj msg))))
               = [Dumps (session_update (JArr [JStr (ustr ''text'')]) (flow_tool s))])"
proof -
  from forward_config_sent [OF assms, of s g]
  have "list_all text_only_update (sent_since s (fst (snd (forward_to_openai g s (JObj msg)))))"
    using text_only_update_session_update [of "flow_tool s"] by auto
  moreover have "sent_since s (fst (snd (forward_to_openai g s (JObj msg))))
               = [Dumps (session_update (JArr [JStr (ustr ''text'')]) (flow_tool s))]"
    if "dict_index msg (ustr ''enabled'') = Inr enabled" "dict_index msg (ustr ''voice_id'') = Inr voice_id"
    using forward_config [OF assms that] by (simp add: sent_since_def)
  ultimately show ?thesis by blast
qed

theorem config_modalities_witness:
  "dict_get config_off (ustr ''type'') JNull = JStr (ustr ''elevenlabs.config'')
   \<and> dict_index config_off (ustr ''enabled'') = Inr (JBool False)
   \<and> sent_since (session_open (make_flow_tool JNull)) (fst (snd (forward_to_openai module_init (session_open (make_flow_tool JNull)) (JObj config_off))))
       = [Dumps (session_update (JArr [JStr (ustr ''text'')]) (make_flow_tool JNull))]
   \<and> modalities_of (Dumps (session_update (JArr [JStr (ustr ''text'')]) (make_flow_tool JNull))) = JArr [JStr (ustr ''text'')]"
proof -
  have t: "dict_get config_off (ustr ''type'') JNull = JStr (ustr ''elevenlabs.config'')"
    by (simp add: config_off_def dict_get_def)
  have e: "dict_index config_off (ustr ''enabled'') = Inr (JBool False)"
    by (simp add: config_off_def dict_index_def)
  have v: "dict_index config_off (ustr ''voice_id'') = Inr (JStr (ustr ''v1''))"
    by (simp add: config_off_def dict_index_def)
  have m: "modalities_of (Dumps (session_update (JArr [JStr (ustr ''text'')]) (make_flow_tool JNull))) = JArr [JStr (ustr ''text'')]"
    by (simp add: modalities_of_def session_update_def dict_get_def)
  from config_modalities [OF t, of "session_open (make_flow_tool JNull)" module_init "JBool False" "JStr (ustr ''v1'')"] e v
  have "sent_since (session_open (make_flow_tool JNull)) (fst (snd (forward_to_openai module_init (session_open (make_flow_tool JNull)) (JObj config_off))))
       = [Dumps (session_update (JArr [JStr (ustr ''text'')]) (flow_tool (session_open (make_flow_tool JNull))))]"
    by blast
  then show ?thesis using t e m by (simp add: session_open_def)
qed

section \<open>VAD monitor: results\<close>

lemma frame_size: "BYTES_PER_24K_FRAME = 960"
  by (simp add: BYTES_PER_24K_FRAME_def SAMPLE_RATE_24K_def FRAME_DURATION_MS_def BYTES_PER_SAMPLE_def)

lemma frame_size_16k: "BYTES_PER_16K_FRAME = 640"
  by (simp add: BYTES_PER_16K_FRAME_def VAD_SAMPLE_RATE_16K_def FRAME_DURATION_MS_def BYTES_PER_SAMPLE_def)

lemma process_frames_inv:
  "process_frames L s vad h seen = (s', vad', h', seen') \<Longrightarrow>
     length (vad_audio_buffer s') < BYTES_PER_24K_FRAME
     \<and> concat seen' @ vad_audio_buffer s' = concat seen @ vad_audio_buffer s
     \<and> (list_all (\<lambda>f. length f = BYTES_PER_24K_FRAME) seen \<longrightarrow> list_all (\<lambda>f. length f = BYTES_PER_24K_FRAME) seen')"
proof (induction L s vad h seen rule: process_frames.induct)
  case (1 L s vad has_speech seen)
  show ?case
  proof (cases "BYTES_PER_24K_FRAME \<le> length (vad_audio_buffer s)")
    case False
    with "1.prems" show ?thesis by (simp add: process_frames.simps)
  next
    case True
    define frame where "frame = take BYTES_PER_24K_FRAME (vad_audio_buffer s)"
    define s1 where "s1 = s\<lparr>vad_audio_buffer := drop BYTES_PER_24K_FRAME (vad_audio_buffer s)\<rparr>"
    define st where "st = vad_frame L (s1, vad, has_speech) frame"
    have run: "process_frames L (fst st) (fst (snd st)) (snd (snd st)) (seen @ [frame]) = (s', vad', h', seen')"
      using "1.prems" True by (simp add: process_frames.simps [of L s] Let_def frame_def s1_def st_def)
    have buf: "vad_audio_buffer (fst st) = drop BYTES_PER_24K_FRAME (vad_audio_buffer s)"
      by (simp add: st_def s1_def vad_frame_buffer)
    have len: "length frame = BYTES_PER_24K_FRAME"
      using True by (simp add: frame_def)
    from "1.IH" [OF True frame_def s1_def st_def run]
    show ?thesis using buf len by (simp add: frame_def)
  qed
qed




lemma sample_pass:
  "process_vad_audio sample_libs speaking_session () =
     Some (Inr (speaking_session
                  \<lparr>upstream := [Dumps response_cancel], vad_queue := [],
                    vad_audio_buffer := replicate 80 0, bot_speaking_flag := False\<rparr>,
                (), True, [replicate 960 0, replicate 960 0]))"
  by (simp add: process_vad_audio_def speaking_session_def session_open_def sample_libs_def
        process_frames.simps frame_size vad_frame_def resample_24k_to_16k_def frombuffer_int16_def
        VAD_SAMPLE_RATE_16K_def Let_def)


text \<open>
  C7. The accumulator is empty when the connection opens, and whenever a pass of the
  monitor returns to wait for the next chunk it holds fewer bytes than one frame. Every
  frame handed to the resampler and the detector in the pass has exactly the frame
  size, and the frames followed by the leftover are the old accumulator followed by the
  decoded chunk. A pass returns whenever an item is queued and decodes.
\<close>

theorem vad_accumulator_bound:
  "vad_audio_buffer (session_open tool) = []
   \<and> (process_vad_audio L s vad = Some (Inr (s', vad', has_speech, seen)) \<longrightarrow>
        length (vad_audio_buffer s') < BYTES_PER_24K_FRAME
        \<and> list_all (\<lambda>f. length f = BYTES_PER_24K_FRAME) seen
        \<and> (\<exists>raw. concat seen @ vad_audio_buffer s' = vad_audio_buffer s @ raw))
   \<and> (vad_queue s = x # q \<and> b64decode L x = Inr raw' \<longrightarrow>
        (\<exists>r. process_vad_audio L s vad = Some (Inr r)))"
proof -
  have 1: "vad_audio_buffer (session_open tool) = []"
    by (simp add: session_open_def)
  have 2: "length (vad_audio_buffer s') < BYTES_PER_24K_FRAME
        \<and> list_all (\<lambda>f. length f = BYTES_PER_24K_FRAME) seen
        \<and> (\<exists>raw. concat seen @ vad_audio_buffer s' = vad_audio_buffer s @ raw)"
    if pass: "process_vad_audio L s vad = Some (Inr (s', vad', has_speech, seen))"
  proof -
    from pass obtain y q raw where q: "vad_queue s = y # q" and d: "b64decode L y = Inr raw"
      and run: "process_frames L (s\<lparr>vad_queue := q, vad_audio_buffer := vad_audio_buffer s @ raw\<rparr>) vad False []
                = (s', vad', has_speech, seen)"
      by (auto simp: process_vad_audio_def split: list.splits sum.splits)
    from process_frames_inv [OF run] show ?thesis by auto
  qed
  have 3: "\<exists>r. process_vad_audio L s vad = Some (Inr r)"
    if "vad_queue s = x # q" "b64decode L x = Inr raw'"
  proof -
    from that have "process_vad_audio L s vad =
        Some (Inr (process_frames L
                 (s\<lparr>vad_queue := q, vad_audio_buffer := vad_audio_buffer s @ raw'\<rparr>) vad False []))"
      by (simp add: process_vad_audio_def)
    then show ?thesis by blast
  qed
  from 1 2 3 show ?thesis by blast
qed

theorem vad_accumulator_bound_witness:
  "process_vad_audio sample_libs speaking_session () =
     Some (Inr (speaking_session
                  \<lparr>upstream := [Dumps response_cancel], vad_queue := [],
                    vad_audio_buffer := replicate 80 0, bot_speaking_flag := False\<rparr>,
                (), True, [replicate 960 0, replicate 960 0]))
   \<and> length (replicate 80 (0 :: 8 word)) < BYTES_PER_24K_FRAME
   \<and> list_all (\<lambda>f. length f = BYTES_PER_24K_FRAME) [replicate 960 (0 :: 8 word), replicate 960 0]"
  using sample_pass
    vad_accumulator_bound [of "make_flow_tool JNull" sample_libs speaking_session "()"
      "speaking_session
                  \<lparr>upstream := [Dumps response_cancel], vad_queue := [],
                    vad_audio_buffer := replicate 80 0, bot_speaking_flag := False\<rparr>"
      "()" True "[replicate 960 0, replicate 960 0]"]
  by simp

section \<open>Resampler: results\<close>

lemma length_tobytes: "length (tobytes ws) = 2 * length ws"
  by (induction ws) (simp_all add: tobytes_def int16_bytes_def)

lemma rint_nearest: "\<bar>of_int (rint x) - x\<bar> \<le> 1 / 2"
  unfolding rint_def by (auto simp: abs_real_def) linarith+

lemma rint_int: "rint (of_int i) = i"
  by (simp add: rint_def)

lemma int16_bytes_back:
  "word_cat (ucast (drop_bit 8 w) :: 8 word) (ucast w :: 8 word) = (w :: 16 word)"
  by (rule bit_word_eqI) (auto simp: bit_word_cat_iff bit_ucast_iff bit_drop_bit_eq)

lemma int16_words_tobytes: "int16_words (tobytes ws) = ws"
  by (induction ws) (simp_all add: tobytes_def int16_bytes_def int16_bytes_back)

lemma sint_astype_int16:
  "sint (astype_int16 far i) =
     (if - 2147483648 \<le> i \<and> i \<le> 2147483647 then (i + 32768) mod 65536 - 32768
      else sint (far i))"
  by (simp add: astype_int16_def int_word_sint)

lemma sint_astype_int16_in_range:
  "- 32768 \<le> i \<Longrightarrow> i \<le> 32767 \<Longrightarrow> (i + 32768) mod 65536 - 32768 = (i::int)"
  by simp

lemma even_length_tobytes: "even (length (tobytes ws))"
  by (simp add: length_tobytes)

lemma frombuffer_tobytes:
  "frombuffer_int16 (tobytes (map (\<lambda>k. astype_int16 far (f k)) ks))
     = Inr (map (\<lambda>k. if - 2147483648 \<le> f k \<and> f k \<le> 2147483647
                       then (f k + 32768) mod 65536 - 32768 else sint (far (f k))) ks)"
  by (simp add: frombuffer_int16_def even_length_tobytes int16_words_tobytes sint_astype_int16 comp_def)

text \<open>
  C5 (as stated, refuted). A frame of 480 bytes holds 240 samples, for which the stated
  target is \<open>240 * 16000 / 24000 = 160\<close> samples, 320 bytes; the resampler returns 640.
\<close>

theorem resample_length_not_proportional:
  "map_sum id length (resample_24k_to_16k (\<lambda>i. 0) zero_resample (replicate 480 0))
     \<noteq> Inr (2 * (length (replicate 480 (0 :: 8 word)) div 2 * VAD_SAMPLE_RATE_16K div SAMPLE_RATE_24K))"
  by (simp add: resample_24k_to_16k_def frombuffer_int16_def zero_resample_def length_tobytes
        VAD_SAMPLE_RATE_16K_def SAMPLE_RATE_24K_def)

text \<open>
  C5 (amended). For every frame of even length that the library resamples without
  raising, the result is exactly 320 samples (640 bytes) whatever the frame's length.
  Read back as signed 16-bit samples, each is the library's value rounded to the nearest
  integer (at most one half away) and then cast to 16 bits without clamping: a rounded
  value inside the 16-bit signed range is kept, one outside it but inside the 32-bit
  range wraps modulo \<open>2 ^ 16\<close>, and one beyond is what the platform's conversion gives.
  For a frame of
  \<open>2 * 480\<close> bytes, the frame size at 24 kHz, the count is the stated target
  \<open>len(frame) / 2 * 16000 / 24000\<close>, and the result is one frame at 16 kHz.
\<close>

theorem resample_fixed_length:
  assumes "even (length frame)"
    and "scipy_resample (map sint (int16_words frame)) 320 = Inr samples_16k"
  shows "(\<exists>out. resample_24k_to_16k far scipy_resample frame = Inr out
            \<and> length out = 2 * 320
            \<and> frombuffer_int16 out
                = Inr (map (\<lambda>k. if - 2147483648 \<le> rint (samples_16k k) \<and> rint (samples_16k k) \<le> 2147483647
                                  then (rint (samples_16k k) + 32768) mod 65536 - 32768
                                  else sint (far (rint (samples_16k k)))) [0..<320])
            \<and> ((\<forall>k<320. - 32768 \<le> rint (samples_16k k) \<and> rint (samples_16k k) \<le> 32767)
                 \<longrightarrow> frombuffer_int16 out = Inr (map (\<lambda>k. rint (samples_16k k)) [0..<320])))
     \<and> \<bar>of_int (rint (samples_16k k)) - samples_16k k\<bar> \<le> 1 / 2
     \<and> (length frame = 2 * 480 \<longrightarrow>
          2 * 320 = 2 * (length frame div 2 * VAD_SAMPLE_RATE_16K div SAMPLE_RATE_24K)
          \<and> 2 * 320 = BYTES_PER_16K_FRAME \<and> length frame = BYTES_PER_24K_FRAME)"
proof -
  let ?out = "tobytes (map (\<lambda>k. astype_int16 far (rint (samples_16k k))) [0..<320])"
  have run: "resample_24k_to_16k far scipy_resample frame = Inr ?out"
    using assms by (simp add: resample_24k_to_16k_def frombuffer_int16_def)
  have len: "length ?out = 2 * 320"
    by (simp add: length_tobytes)
  have decoded: "frombuffer_int16 ?out
                = Inr (map (\<lambda>k. if - 2147483648 \<le> rint (samples_16k k) \<and> rint (samples_16k k) \<le> 2147483647
                                  then (rint (samples_16k k) + 32768) mod 65536 - 32768
                                  else sint (far (rint (samples_16k k)))) [0..<320])"
    by (rule frombuffer_tobytes)
  have inside: "frombuffer_int16 ?out = Inr (map (\<lambda>k. rint (samples_16k k)) [0..<320])"
    if "\<forall>k<320. - 32768 \<le> rint (samples_16k k) \<and> rint (samples_16k k) \<le> 32767"
  proof -
    have "map (\<lambda>k. if - 2147483648 \<le> rint (samples_16k k) \<and> rint (samples_16k k) \<le> 2147483647
                    then (rint (samples_16k k) + 32768) mod 65536 - 32768
                    else sint (far (rint (samples_16k k)))) [0..<320]
            = map (\<lambda>k. rint (samples_16k k)) [0..<320]"
    proof (intro map_cong refl)
      fix x assume "x \<in> set [0..<320]"
      then have "x < 320" by simp
      with that have r: "- 32768 \<le> rint (samples_16k x)" "rint (samples_16k x) \<le> 32767"
        by simp_all
      then show "(if - 2147483648 \<le> rint (samples_16k x) \<and> rint (samples_16k x) \<le> 2147483647
                  then (rint (samples_16k x) + 32768) mod 65536 - 32768
                  else sint (far (rint (samples_16k x)))) = rint (samples_16k x)"
        by (simp add: sint_astype_int16_in_range)
    qed
    with decoded show ?thesis by simp
  qed
  have rate: "length frame = 2 * 480 \<longrightarrow>
          2 * 320 = 2 * (length frame div 2 * VAD_SAMPLE_RATE_16K div SAMPLE_RATE_24K)
          \<and> 2 * 320 = BYTES_PER_16K_FRAME \<and> length frame = BYTES_PER_24K_FRAME"
    by (simp add: VAD_SAMPLE_RATE_16K_def SAMPLE_RATE_24K_def frame_size frame_size_16k)
  from run len decoded inside rate rint_nearest [of "samples_16k k"] show ?thesis by blast
qed

theorem resample_fixed_length_witness:
  "even (length (replicate 960 (0 :: 8 word)))
   \<and> loud_resample (map sint (int16_words (replicate 960 0))) 320
       = Inr (\<lambda>k. if k = 0 then 40000 else 1 / 2)
   \<and> (\<exists>out samples. resample_24k_to_16k (\<lambda>i. 0) loud_resample (replicate 960 0) = Inr out
          \<and> length out = 640
          \<and> frombuffer_int16 out = Inr samples
          \<and> samples ! 0 = - 25536 \<and> samples ! 1 = 0)"
proof -
  have e: "even (length (replicate 960 (0 :: 8 word)))" by simp
  have r: "loud_resample (map sint (int16_words (replicate 960 0))) 320
             = Inr (\<lambda>k. if k = 0 then 40000 else 1 / 2)"
    by (simp add: loud_resample_def)
  from resample_fixed_length [of "replicate 960 0" loud_resample "\<lambda>k. if k = 0 then 40000 else 1 / 2" "\<lambda>i. 0", OF e r]
  obtain out where out: "resample_24k_to_16k (\<lambda>i. 0) loud_resample (replicate 960 0) = Inr out"
      "length out = 2 * 320"
      "frombuffer_int16 out
         = Inr (map (\<lambda>k. if - 2147483648 \<le> rint (if k = 0 then 40000 else 1 / 2) \<and> rint (if k = 0 then 40000 else 1 / 2) \<le> 2147483647
                then (rint (if k = 0 then 40000 else 1 / 2) + 32768) mod 65536 - 32768
                else sint ((\<lambda>i. 0 :: 16 word) (rint (if k = 0 then 40000 else 1 / 2)))) [0..<320])"
    by blast
  have s0: "map (\<lambda>k. if - 2147483648 \<le> rint (if k = 0 then 40000 else 1 / 2) \<and> rint (if k = 0 then 40000 else 1 / 2) \<le> 2147483647
                then (rint (if k = 0 then 40000 else 1 / 2) + 32768) mod 65536 - 32768
                else sint ((\<lambda>i. 0 :: 16 word) (rint (if k = 0 then 40000 else 1 / 2)))) [0..<320] ! 0 = - 25536"
    by (simp add: rint_def)
  have s1: "map (\<lambda>k. if - 2147483648 \<le> rint (if k = 0 then 40000 else 1 / 2) \<and> rint (if k = 0 then 40000 else 1 / 2) \<le> 2147483647
                then (rint (if k = 0 then 40000 else 1 / 2) + 32768) mod 65536 - 32768
                else sint ((\<lambda>i. 0 :: 16 word) (rint (if k = 0 then 40000 else 1 / 2)))) [0..<320] ! 1 = 0"
    by (simp add: rint_def)
  from out s0 s1 have "\<exists>out samples. resample_24k_to_16k (\<lambda>i. 0) loud_resample (replicate 960 0) = Inr out
          \<and> length out = 640
          \<and> frombuffer_int16 out = Inr samples
          \<and> samples ! 0 = - 25536 \<and> samples ! 1 = 0"
    by simp
  with e r show ?thesis by blast
qed

section \<open>Tool-call dispatcher: results\<close>

lemma function_call_output_seen:
  "is_function_call_output (Dumps (function_call_output cid out))"
  "output_call_id (Dumps (function_call_output cid out)) = cid"
  "\<not> is_function_call_output (Dumps response_create)"
  by (simp_all add: is_function_call_output_def output_call_id_def function_call_output_def
        response_create_def dict_get_def)

lemma flow_failed_upstream:
  "to_upstream (flow_failed call calls sent e) =
     [Dumps (function_call_output (dict_get call (ustr ''call_id'') JNull)
               (ustr ''Error executing flow: '' @ exn_str e))]"
  "executor_calls (flow_failed call calls sent e) = calls"
  by (simp_all add: flow_failed_def)

lemma handle_function_call_one_output:
  "\<exists>out. filter is_function_call_output (to_upstream (handle_function_call libs n call args flow_id))
           = [Dumps (function_call_output (dict_get call (ustr ''call_id'') JNull) out)]"
  unfolding handle_function_call_def Let_def
  by (auto simp: flow_failed_upstream function_call_output_seen split: sum.split prod.split)

lemma handle_function_call_calls:
  "length (executor_calls (handle_function_call libs n call args flow_id)) \<le> 1"
  unfolding handle_function_call_def Let_def
  by (simp add: flow_failed_def split: sum.split prod.split)

lemma forward_args_delta:
  assumes "is_args_delta event d"
  shows "forward_to_client s event =
           (s\<lparr>client := client s @ [Verbatim event],
              function_call_args := function_call_args s @ d\<rparr>, None, None)"
proof -
  from assms obtain ev where ev: "event = JObj ev"
      "dict_get ev (ustr ''type'') JNull = JStr (ustr ''response.function_call_arguments.delta'')"
      "dict_get ev (ustr ''delta'') (JStr []) = JStr d"
    by (auto simp: is_args_delta_def split: json.splits)
  show ?thesis
    using ev(2,3) unfolding ev(1) by (simp add: Let_def)
qed

lemma forward_args_done:
  assumes "is_args_done event" and "function_call s = Some item" and "item \<noteq> []"
  shows "forward_to_client s event =
           (s\<lparr>client := client s @ [Verbatim event], function_call := None,
              function_call_args := []\<rparr>,
            Some (item, function_call_args s), None)"
proof -
  from assms(1) obtain ev where ev: "event = JObj ev"
      "dict_get ev (ustr ''type'') JNull = JStr (ustr ''response.function_call_arguments.done'')"
    by (auto simp: is_args_done_def split: json.splits)
  show ?thesis
    using ev(2) assms(2,3) unfolding ev(1) by (simp add: Let_def)
qed

lemma run_args_deltas:
  assumes "list_all2 is_args_delta es ds"
  shows "run_forward_to_client libs flow_id (s, calls, n) (es @ rest) =
         run_forward_to_client libs flow_id
           (s\<lparr>client := client s @ map Verbatim es,
              function_call_args := function_call_args s @ concat ds\<rparr>, calls, n) rest"
  using assms
proof (induction es ds arbitrary: s rule: list_all2_induct)
  case Nil
  show ?case by simp
next
  case (Cons e d es ds)
  show ?case
    by (simp add: forward_args_delta [OF Cons.hyps(1)] Cons.IH)
qed

lemma hi_arguments_nonempty: "hi_arguments \<noteq> []"
  by (simp add: hi_arguments_def)

lemma handle_hi_calls:
  assumes "json_loads libs hi_arguments = Inr (JObj [(ustr ''input'', JStr (ustr ''hi''))])"
    and "UUID libs flow_id = Inr fid"
  shows "executor_calls (handle_function_call libs n call hi_arguments flow_id)
           = [(fid, hi_request (uuid4 libs n))]"
  using assms hi_arguments_nonempty
  by (simp add: handle_function_call_def Let_def hi_request_def dict_get_def flow_failed_def
        split: sum.split prod.split)

lemma handle_empty_calls:
  assumes "UUID libs flow_id = Inr fid"
  shows "executor_calls (handle_function_call libs n call [] flow_id)
           = [(fid, none_request (uuid4 libs n))]"
  using assms
  by (simp add: handle_function_call_def Let_def none_request_def dict_get_def flow_failed_def
        split: sum.split prod.split)

lemma handle_bad_json:
  assumes "args \<noteq> []" and "json_loads libs args = Inl e"
  shows "handle_function_call libs n call args flow_id = flow_failed call [] [] e"
  using assms by (simp add: handle_function_call_def)

lemma handle_executor_raises:
  assumes "json_loads libs hi_arguments = Inr (JObj [(ustr ''input'', JStr (ustr ''hi''))])"
    and "UUID libs flow_id = Inr fid"
    and "build_flow libs fid (hi_request (uuid4 libs n)) = Inl e"
  shows "handle_function_call libs n call hi_arguments flow_id
           = flow_failed call [(fid, hi_request (uuid4 libs n))] [] e"
  using assms hi_arguments_nonempty
  by (simp add: handle_function_call_def Let_def hi_request_def dict_get_def)

lemma round_trip_run:
  assumes deltas: "list_all2 is_args_delta es ds"
    and cat: "concat ds = hi_arguments"
    and fin: "is_args_done event"
    and pending: "function_call s = Some item" "item \<noteq> []" "function_call_args s = []"
  shows "run_forward_to_client libs flow_id (s, [], n) (es @ [event]) =
           ((s\<lparr>client := client s @ map Verbatim es @ [Verbatim event]
                    @ to_client (handle_function_call libs n item hi_arguments flow_id),
                upstream := upstream s @ to_upstream (handle_function_call libs n item hi_arguments flow_id),
                function_call := None, function_call_args := []\<rparr>,
             executor_calls (handle_function_call libs n item hi_arguments flow_id), Suc n), None)"
proof -
  define s1 where "s1 = s\<lparr>client := client s @ map Verbatim es,
                function_call_args := function_call_args s @ concat ds\<rparr>"
  have p: "function_call s1 = Some item" "function_call_args s1 = hi_arguments"
    using pending cat by (simp_all add: s1_def)
  have run1: "run_forward_to_client libs flow_id (s, [], n) (es @ [event])
                = run_forward_to_client libs flow_id (s1, [], n) [event]"
    unfolding s1_def by (rule run_args_deltas [OF deltas])
  have step: "forward_to_client s1 event =
           (s1\<lparr>client := client s1 @ [Verbatim event], function_call := None,
              function_call_args := []\<rparr>,
            Some (item, hi_arguments), None)"
    using forward_args_done [OF fin p(1) pending(2)] p(2) by simp
  have "run_forward_to_client libs flow_id (s1, [], n) [event] =
           ((s1\<lparr>client := client s1 @ [Verbatim event]
                    @ to_client (handle_function_call libs n item hi_arguments flow_id),
                upstream := upstream s1 @ to_upstream (handle_function_call libs n item hi_arguments flow_id),
                function_call := None, function_call_args := []\<rparr>,
             executor_calls (handle_function_call libs n item hi_arguments flow_id), Suc n), None)"
    by (simp add: step Let_def)
  then show ?thesis
    unfolding run1 by (simp add: s1_def)
qed

lemma str_add_cases:
  "str_add r t = (case str_add [] t of Inl e \<Rightarrow> Inl e | Inr s \<Rightarrow> Inr (r @ s))"
  by (cases t) simp_all

lemma str_add_text:
  "str_add [] t = Inr s \<Longrightarrow> t = JStr s"
  by (cases t) simp_all

lemma consume_body_quiet:
  assumes "item_raises loads item = None"
  shows "\<exists>sent1. consume_body loads (item # rest) sent result
           = consume_body loads rest sent1 (result @ item_text loads item)"
proof (cases item)
  case (Inl e)
  with assms show ?thesis by (simp add: item_raises_def)
next
  case (Inr line)
  show ?thesis
  proof (cases "line = []")
    case True
    with Inr show ?thesis by (auto simp: item_text_def)
  next
    case False
    with assms Inr obtain event_data ev where l: "loads line = Inr event_data"
        and g: "py_get event_data (ustr ''event'') JNull = Inr ev"
      by (auto simp: item_raises_def split: sum.splits)
    show ?thesis
    proof (cases "ev = JStr (ustr ''end_vertex'')")
      case ne: False
      with Inr False l g show ?thesis
        by (auto simp: item_text_def Let_def)
    next
      case True
      with assms Inr False l g obtain t s where t: "text_part event_data = Inr t"
          and s: "str_add [] t = Inr s"
        by (auto simp: item_raises_def split: sum.splits)
      from s have ts: "t = JStr s" by (rule str_add_text)
      from Inr False l g True t ts show ?thesis
        by (auto simp: item_text_def Let_def)
    qed
  qed
qed

lemma consume_body_first_raise:
  assumes "item_raises loads item = Some e"
  shows "snd (consume_body loads (item # rest) sent result) = Inl e"
  using assms
  by (cases item)
     (auto simp: item_raises_def Let_def str_add_cases [of result] split: sum.splits if_splits)

lemma consume_body_raises:
  assumes "list_all (\<lambda>i. item_raises loads i = None) pre"
    and "item_raises loads item = Some e"
  shows "snd (consume_body loads (pre @ item # rest) sent result) = Inl e"
  using assms(1)
proof (induction pre arbitrary: sent result)
  case Nil
  show ?case using consume_body_first_raise [OF assms(2)] by simp
next
  case (Cons i pre)
  from Cons.prems have q: "item_raises loads i = None"
    and r: "list_all (\<lambda>i. item_raises loads i = None) pre"
    by simp_all
  from consume_body_quiet [OF q, of "pre @ item # rest" sent result]
  obtain sent1 where "consume_body loads (i # pre @ item # rest) sent result
      = consume_body loads (pre @ item # rest) sent1 (result @ item_text loads i)"
    by blast
  with Cons.IH [OF r] show ?case by simp
qed

lemma consume_body_returns:
  assumes "list_all (\<lambda>i. item_raises loads i = None) body"
  shows "snd (consume_body loads body sent result)
           = Inr (result @ concat (map (item_text loads) body))"
  using assms
proof (induction body arbitrary: sent result)
  case Nil
  show ?case by simp
next
  case (Cons i body)
  from Cons.prems have q: "item_raises loads i = None"
    and r: "list_all (\<lambda>i. item_raises loads i = None) body"
    by simp_all
  from consume_body_quiet [OF q, of body sent result]
  obtain sent1 where "consume_body loads (i # body) sent result
      = consume_body loads body sent1 (result @ item_text loads i)"
    by blast
  with Cons.IH [OF r] show ?case by simp
qed

lemma error_output_upstream:
  "to_upstream (flow_failed call calls sent e) = [error_output call e]"
  by (simp add: flow_failed_def error_output_def)

lemma handle_not_object:
  assumes "loaded_args libs args = Inr a" and "py_get a (ustr ''input'') JNull = Inl x"
  shows "handle_function_call libs k call args fl = flow_failed call [] [] x"
  using assms by (simp add: handle_function_call_def loaded_args_def Let_def)

lemma handle_bad_flow_id:
  assumes "loaded_args libs args = Inr a" and "py_get a (ustr ''input'') JNull = Inr inp"
    and "UUID libs fl = Inl x"
  shows "handle_function_call libs k call args fl = flow_failed call [] [] x"
  using assms by (simp add: handle_function_call_def loaded_args_def Let_def)

lemma handle_build_flow_raises:
  assumes "loaded_args libs args = Inr a" and "py_get a (ustr ''input'') JNull = Inr inp"
    and "UUID libs fl = Inr f"
    and "build_flow libs f (chat_request inp (uuid4 libs k)) = Inl x"
  shows "handle_function_call libs k call args fl
           = flow_failed call [(f, chat_request inp (uuid4 libs k))] [] x"
  using assms by (simp add: handle_function_call_def loaded_args_def Let_def chat_request_def)

lemma handle_stream:
  assumes "loaded_args libs args = Inr a" and "py_get a (ustr ''input'') JNull = Inr inp"
    and "UUID libs fl = Inr f"
    and "build_flow libs f (chat_request inp (uuid4 libs k)) = Inr body"
  shows "to_upstream (handle_function_call libs k call args fl)
           = (case snd (consume_body (json_loads libs) body [] []) of
                Inl x \<Rightarrow> [error_output call x]
              | Inr result \<Rightarrow>
                  [Dumps (function_call_output (dict_get call (ustr ''call_id'') JNull) result),
                   Dumps response_create])
         \<and> executor_calls (handle_function_call libs k call args fl)
           = [(f, chat_request inp (uuid4 libs k))]"
  using assms
  by (simp add: handle_function_call_def loaded_args_def Let_def chat_request_def
        flow_failed_def error_output_def split: prod.split sum.split)

lemma handle_outcomes:
  "loaded_args libs args = Inr a \<longrightarrow>
     (py_get a (ustr ''input'') JNull = Inl x \<longrightarrow>
        to_upstream (handle_function_call libs k call args fl) = [error_output call x]
        \<and> executor_calls (handle_function_call libs k call args fl) = [])
     \<and> (py_get a (ustr ''input'') JNull = Inr inp \<longrightarrow>
          (UUID libs fl = Inl x \<longrightarrow>
             to_upstream (handle_function_call libs k call args fl) = [error_output call x]
             \<and> executor_calls (handle_function_call libs k call args fl) = [])
          \<and> (UUID libs fl = Inr f \<longrightarrow>
               executor_calls (handle_function_call libs k call args fl)
                 = [(f, chat_request inp (uuid4 libs k))]
               \<and> (build_flow libs f (chat_request inp (uuid4 libs k)) = Inl x \<longrightarrow>
                    to_upstream (handle_function_call libs k call args fl) = [error_output call x])
               \<and> (build_flow libs f (chat_request inp (uuid4 libs k)) = Inr (pre @ it # rest)
                    \<and> list_all (\<lambda>i. item_raises (json_loads libs) i = None) pre
                    \<and> item_raises (json_loads libs) it = Some x \<longrightarrow>
                    to_upstream (handle_function_call libs k call args fl) = [error_output call x])
               \<and> (build_flow libs f (chat_request inp (uuid4 libs k)) = Inr body
                    \<and> list_all (\<lambda>i. item_raises (json_loads libs) i = None) body \<longrightarrow>
                    to_upstream (handle_function_call libs k call args fl)
                      = [Dumps (function_call_output (dict_get call (ustr ''call_id'') JNull)
                                  (concat (map (item_text (json_loads libs)) body))),
                         Dumps response_create])))"
proof (intro impI conjI; (elim conjE)?)
  assume l: "loaded_args libs args = Inr a"
  { assume "py_get a (ustr ''input'') JNull = Inl x"
    note h = handle_not_object [OF l this, of k call fl]
    show "to_upstream (handle_function_call libs k call args fl) = [error_output call x]"
      unfolding h by (rule error_output_upstream)
    show "executor_calls (handle_function_call libs k call args fl) = []"
      unfolding h by (simp add: flow_failed_def) }
  assume i: "py_get a (ustr ''input'') JNull = Inr inp"
  { assume "UUID libs fl = Inl x"
    note h = handle_bad_flow_id [OF l i this, of k call]
    show "to_upstream (handle_function_call libs k call args fl) = [error_output call x]"
      unfolding h by (rule error_output_upstream)
    show "executor_calls (handle_function_call libs k call args fl) = []"
      unfolding h by (simp add: flow_failed_def) }
  assume u: "UUID libs fl = Inr f"
  show "executor_calls (handle_function_call libs k call args fl)
          = [(f, chat_request inp (uuid4 libs k))]"
  proof (cases "build_flow libs f (chat_request inp (uuid4 libs k))")
    case (Inl y)
    show ?thesis unfolding handle_build_flow_raises [OF l i u Inl] by (simp add: flow_failed_def)
  next
    case (Inr body)
    from handle_stream [OF l i u Inr] show ?thesis by simp
  qed
  { assume "build_flow libs f (chat_request inp (uuid4 libs k)) = Inl x"
    note h = handle_build_flow_raises [OF l i u this, of call]
    show "to_upstream (handle_function_call libs k call args fl) = [error_output call x]"
      unfolding h by (rule error_output_upstream) }
  { assume b: "build_flow libs f (chat_request inp (uuid4 libs k)) = Inr (pre @ it # rest)"
      and q: "list_all (\<lambda>i. item_raises (json_loads libs) i = None) pre"
      and r: "item_raises (json_loads libs) it = Some x"
    from handle_stream [OF l i u b, of call] consume_body_raises [OF q r, of rest "[]" "[]"]
    show "to_upstream (handle_function_call libs k call args fl) = [error_output call x]"
      by simp }
  { assume b: "build_flow libs f (chat_request inp (uuid4 libs k)) = Inr body"
      and q: "list_all (\<lambda>i. item_raises (json_loads libs) i = None) body"
    from handle_stream [OF l i u b, of call] consume_body_returns [OF q, of "[]" "[]"]
    show "to_upstream (handle_function_call libs k call args fl)
                      = [Dumps (function_call_output (dict_get call (ustr ''call_id'') JNull)
                                  (concat (map (item_text (json_loads libs)) body))),
                         Dumps response_create]"
      by simp }
qed

lemma answer_line_quiet:
  "item_raises (json_loads sample_tool_libs) (Inr answer_line) = None"
  "item_text (json_loads sample_tool_libs) (Inr answer_line) = ustr ''ok''"
  by (simp_all add: item_raises_def item_text_def sample_tool_libs_def answer_line_def hi_arguments_def
        go_arguments_def answer_event_def text_part_def then_get_def dict_get_def)

lemma empty_line_quiet:
  "item_raises loads (Inr []) = None" "item_text loads (Inr []) = []"
  by (simp_all add: item_raises_def item_text_def)

text \<open>
  C2. With a call pending and an empty argument buffer, argument pieces that concatenate
  to \<open>{"input":"hi"}\<close> followed by the closing event make the dispatcher call the
  executor exactly once, with the input \<open>"hi"\<close>, and send upstream exactly one
  \<open>function_call_output\<close>, carrying the call's identifier; this holds for every executor,
  one that raises included. For any call and any arguments the dispatcher sends exactly
  one \<open>function_call_output\<close> with the call's identifier. An empty argument buffer is
  read as the empty object, so the executor is called with no input. Every failure gives
  the one output text \<open>"Error executing flow: "\<close> followed by the error's text: arguments
  that do not parse, arguments that are no object, a malformed flow identifier, an
  executor that raises, and a response stream whose first failing item raises while it
  is read. When nothing raises, the output text is what the \<open>end_vertex\<close> events of the
  stream carry, in order, and \<open>response.create\<close> follows.
\<close>

theorem tool_round_trip:
  assumes deltas: "list_all2 is_args_delta es ds"
    and cat: "concat ds = hi_arguments"
    and fin: "is_args_done event"
    and pending: "function_call s = Some item \<and> item \<noteq> [] \<and> function_call_args s = []"
    and loads: "json_loads libs hi_arguments = Inr (JObj [(ustr ''input'', JStr (ustr ''hi''))])"
    and uuid: "UUID libs flow_id = Inr fid"
  shows "(case run_forward_to_client libs flow_id (s, [], n) (es @ [event]) of
            ((s', calls, n'), err) \<Rightarrow>
               err = None
               \<and> calls = [(fid, hi_request (uuid4 libs n))]
               \<and> map output_call_id (filter is_function_call_output (sent_since s s'))
                   = [dict_get item (ustr ''call_id'') JNull]
               \<and> function_call s' = None \<and> function_call_args s' = [])
     \<and> (\<exists>out. filter is_function_call_output (to_upstream (handle_function_call libs k call args flow_id))
            = [Dumps (function_call_output (dict_get call (ustr ''call_id'') JNull) out)])
     \<and> executor_calls (handle_function_call libs k call [] flow_id) = [(fid, none_request (uuid4 libs k))]
     \<and> (args \<noteq> [] \<and> json_loads libs args = Inl e \<longrightarrow>
          to_upstream (handle_function_call libs k call args flow_id)
            = [Dumps (function_call_output (dict_get call (ustr ''call_id'') JNull)
                        (ustr ''Error executing flow: '' @ exn_str e))]
          \<and> executor_calls (handle_function_call libs k call args flow_id) = [])
     \<and> (build_flow libs fid (hi_request (uuid4 libs k)) = Inl e \<longrightarrow>
          to_upstream (handle_function_call libs k call hi_arguments flow_id)
            = [Dumps (function_call_output (dict_get call (ustr ''call_id'') JNull)
                        (ustr ''Error executing flow: '' @ exn_str e))]
          \<and> executor_calls (handle_function_call libs k call hi_arguments flow_id)
            = [(fid, hi_request (uuid4 libs k))])
     \<and> (loaded_args libs args = Inr a \<longrightarrow>
          (py_get a (ustr ''input'') JNull = Inl x \<longrightarrow>
             to_upstream (handle_function_call libs k call args fl) = [error_output call x]
             \<and> executor_calls (handle_function_call libs k call args fl) = [])
          \<and> (py_get a (ustr ''input'') JNull = Inr inp \<longrightarrow>
               (UUID libs fl = Inl x \<longrightarrow>
                  to_upstream (handle_function_call libs k call args fl) = [error_output call x]
                  \<and> executor_calls (handle_function_call libs k call args fl) = [])
               \<and> (UUID libs fl = Inr f \<longrightarrow>
                    executor_calls (handle_function_call libs k call args fl)
                      = [(f, chat_request inp (uuid4 libs k))]
                    \<and> (build_flow libs f (chat_request inp (uuid4 libs k)) = Inl x \<longrightarrow>
                         to_upstream (handle_function_call libs k call args fl) = [error_output call x])
                    \<and> (build_flow libs f (chat_request inp (uuid4 libs k)) = Inr (pre @ it # rest)
                         \<and> list_all (\<lambda>i. item_raises (json_loads libs) i = None) pre
                         \<and> item_raises (json_loads libs) it = Some x \<longrightarrow>
                         to_upstream (handle_function_call libs k call args fl) = [error_output call x])
                    \<and> (build_flow libs f (chat_request inp (uuid4 libs k)) = Inr body
                         \<and> list_all (\<lambda>i. item_raises (json_loads libs) i = None) body \<longrightarrow>
                         to_upstream (handle_function_call libs k call args fl)
                           = [Dumps (function_call_output (dict_get call (ustr ''call_id'') JNull)
                                       (concat (map (item_text (json_loads libs)) body))),
                              Dumps response_create]))))"
proof -
  let ?d = "handle_function_call libs n item hi_arguments flow_id"
  from pending have p: "function_call s = Some item" "item \<noteq> []" "function_call_args s = []"
    by simp_all
  obtain out where out: "filter is_function_call_output (to_upstream ?d)
       = [Dumps (function_call_output (dict_get item (ustr ''call_id'') JNull) out)]"
    using handle_function_call_one_output [of libs n item hi_arguments flow_id] by blast
  have 1: "(case run_forward_to_client libs flow_id (s, [], n) (es @ [event]) of
            ((s', calls, n'), err) \<Rightarrow>
               err = None
               \<and> calls = [(fid, hi_request (uuid4 libs n))]
               \<and> map output_call_id (filter is_function_call_output (sent_since s s'))
                   = [dict_get item (ustr ''call_id'') JNull]
               \<and> function_call s' = None \<and> function_call_args s' = [])"
    unfolding round_trip_run [OF deltas cat fin p]
    using out by (simp add: handle_hi_calls [OF loads uuid] sent_since_def function_call_output_seen)
  have 2: "\<exists>out. filter is_function_call_output (to_upstream (handle_function_call libs k call args flow_id))
            = [Dumps (function_call_output (dict_get call (ustr ''call_id'') JNull) out)]"
    by (rule handle_function_call_one_output)
  have 3: "executor_calls (handle_function_call libs k call [] flow_id) = [(fid, none_request (uuid4 libs k))]"
    by (rule handle_empty_calls [OF uuid])
  have 4: "args \<noteq> [] \<and> json_loads libs args = Inl e \<longrightarrow>
          to_upstream (handle_function_call libs k call args flow_id)
            = [Dumps (function_call_output (dict_get call (ustr ''call_id'') JNull)
                        (ustr ''Error executing flow: '' @ exn_str e))]
          \<and> executor_calls (handle_function_call libs k call args flow_id) = []"
  proof (intro impI, elim conjE)
    assume that: "args \<noteq> []" "json_loads libs args = Inl e"
    show "to_upstream (handle_function_call libs k call args flow_id)
            = [Dumps (function_call_output (dict_get call (ustr ''call_id'') JNull)
                        (ustr ''Error executing flow: '' @ exn_str e))]
          \<and> executor_calls (handle_function_call libs k call args flow_id) = []"
      unfolding handle_bad_json [OF that] by (simp add: flow_failed_upstream)
  qed
  have 5: "build_flow libs fid (hi_request (uuid4 libs k)) = Inl e \<longrightarrow>
          to_upstream (handle_function_call libs k call hi_arguments flow_id)
            = [Dumps (function_call_output (dict_get call (ustr ''call_id'') JNull)
                        (ustr ''Error executing flow: '' @ exn_str e))]
          \<and> executor_calls (handle_function_call libs k call hi_arguments flow_id)
            = [(fid, hi_request (uuid4 libs k))]"
  proof
    assume that: "build_flow libs fid (hi_request (uuid4 libs k)) = Inl e"
    show "to_upstream (handle_function_call libs k call hi_arguments flow_id)
            = [Dumps (function_call_output (dict_get call (ustr ''call_id'') JNull)
                        (ustr ''Error executing flow: '' @ exn_str e))]
          \<and> executor_calls (handle_function_call libs k call hi_arguments flow_id)
            = [(fid, hi_request (uuid4 libs k))]"
      unfolding handle_executor_raises [OF loads uuid that] by (simp add: flow_failed_upstream)
  qed
  note 6 = handle_outcomes [of libs args a x k call fl inp f pre it rest body]
  show ?thesis
    by (intro conjI) (rule 1 2 3 4 5 6)+
qed

theorem tool_round_trip_witness:
  "list_all2 is_args_delta sample_delta_events hi_deltas
   \<and> concat hi_deltas = hi_arguments
   \<and> is_args_done sample_done_event
   \<and> function_call pending_session = Some sample_call
   \<and> (case run_forward_to_client sample_tool_libs (ustr ''flow-1'') (pending_session, [], 0)
             (sample_delta_events @ [sample_done_event]) of
         ((s', calls, n'), err) \<Rightarrow>
            err = None
            \<and> calls = [(ustr ''flow-1'', hi_request (ustr ''conversation''))]
            \<and> map output_call_id (filter is_function_call_output (sent_since pending_session s'))
                = [JStr (ustr ''call_1'')])
   \<and> to_upstream (handle_function_call sample_tool_libs 0 sample_call (ustr ''{bad'') (ustr ''flow-1''))
       = [Dumps (function_call_output (JStr (ustr ''call_1''))
                   (ustr ''Error executing flow: Expecting value''))]
   \<and> to_upstream (handle_function_call sample_tool_libs 0 sample_call hi_arguments (ustr ''flow-1''))
       = [Dumps (function_call_output (JStr (ustr ''call_1''))
                   (ustr ''Error executing flow: boom''))]
   \<and> to_upstream (handle_function_call sample_tool_libs 0 sample_call (ustr ''[1]'') (ustr ''flow-1''))
       = [Dumps (function_call_output (JStr (ustr ''call_1''))
                   (ustr ''Error executing flow: '' @ [39] @ ustr ''list'' @ [39]
                      @ ustr '' object has no attribute '' @ [39] @ ustr ''get'' @ [39]))]
   \<and> to_upstream (handle_function_call sample_tool_libs 0 sample_call hi_arguments (ustr ''nope''))
       = [Dumps (function_call_output (JStr (ustr ''call_1''))
                   (ustr ''Error executing flow: badly formed hexadecimal UUID string''))]
   \<and> to_upstream (handle_function_call sample_tool_libs 0 sample_call [] (ustr ''flow-1''))
       = [Dumps (function_call_output (JStr (ustr ''call_1''))
                   (ustr ''Error executing flow: stream broke''))]
   \<and> to_upstream (handle_function_call sample_tool_libs 0 sample_call go_arguments (ustr ''flow-1''))
       = [Dumps (function_call_output (JStr (ustr ''call_1'')) (ustr ''ok'')),
          Dumps response_create]"
proof -
  have deltas: "list_all2 is_args_delta sample_delta_events hi_deltas"
    by (simp add: sample_delta_events_def hi_deltas_def is_args_delta_def dict_get_def)
  have cat: "concat hi_deltas = hi_arguments"
    by (simp add: hi_deltas_def hi_arguments_def)
  have fin: "is_args_done sample_done_event"
    by (simp add: sample_done_event_def is_args_done_def dict_get_def)
  have pending: "function_call pending_session = Some sample_call \<and> sample_call \<noteq> []
      \<and> function_call_args pending_session = []"
    by (simp add: pending_session_def session_open_def sample_call_def)
  have loads: "json_loads sample_tool_libs hi_arguments = Inr (JObj [(ustr ''input'', JStr (ustr ''hi''))])"
    by (simp add: sample_tool_libs_def)
  have uuid: "UUID sample_tool_libs (ustr ''flow-1'') = Inr (ustr ''flow-1'')"
    by (simp add: sample_tool_libs_def)
  have conv: "uuid4 sample_tool_libs 0 = ustr ''conversation''"
    by (simp add: sample_tool_libs_def)
  have cid: "dict_get sample_call (ustr ''call_id'') JNull = JStr (ustr ''call_1'')"
    by (simp add: sample_call_def dict_get_def)
  note T = tool_round_trip [OF deltas cat fin pending loads uuid, where n = 0 and k = 0 and call = sample_call]

  have run: "(case run_forward_to_client sample_tool_libs (ustr ''flow-1'') (pending_session, [], 0)
             (sample_delta_events @ [sample_done_event]) of
         ((s', calls, n'), err) \<Rightarrow>
            err = None
            \<and> calls = [(ustr ''flow-1'', hi_request (ustr ''conversation''))]
            \<and> map output_call_id (filter is_function_call_output (sent_since pending_session s'))
                = [JStr (ustr ''call_1'')])"
    using T unfolding conv cid by (auto split: prod.splits)

  have bad: "ustr ''{bad'' \<noteq> [] \<and> json_loads sample_tool_libs (ustr ''{bad'')
               = Inl (JSONDecodeError (ustr ''Expecting value''))"
    by (simp add: sample_tool_libs_def hi_arguments_def go_arguments_def answer_line_def)
  have e1: "to_upstream (handle_function_call sample_tool_libs 0 sample_call (ustr ''{bad'') (ustr ''flow-1''))
       = [Dumps (function_call_output (JStr (ustr ''call_1''))
                   (ustr ''Error executing flow: Expecting value''))]"
    using T [where args = "ustr ''{bad''" and e = "JSONDecodeError (ustr ''Expecting value'')"] bad
    unfolding cid by simp

  have raises: "build_flow sample_tool_libs (ustr ''flow-1'') (hi_request (uuid4 sample_tool_libs 0))
               = Inl (Exception (ustr ''boom''))"
    by (simp add: sample_tool_libs_def hi_request_def)
  have e2: "to_upstream (handle_function_call sample_tool_libs 0 sample_call hi_arguments (ustr ''flow-1''))
       = [Dumps (function_call_output (JStr (ustr ''call_1''))
                   (ustr ''Error executing flow: boom''))]"
    using T [where e = "Exception (ustr ''boom'')"] raises unfolding cid by simp

  have l3: "loaded_args sample_tool_libs (ustr ''[1]'') = Inr (JArr [JInt 1])"
    by (simp add: loaded_args_def sample_tool_libs_def hi_arguments_def go_arguments_def)
  have g3: "py_get (JArr [JInt 1]) (ustr ''input'') JNull = Inl (no_attribute_get (JArr [JInt 1]))"
    by simp
  have e3: "to_upstream (handle_function_call sample_tool_libs 0 sample_call (ustr ''[1]'') (ustr ''flow-1''))
       = [Dumps (function_call_output (JStr (ustr ''call_1''))
                   (ustr ''Error executing flow: '' @ [39] @ ustr ''list'' @ [39]
                      @ ustr '' object has no attribute '' @ [39] @ ustr ''get'' @ [39]))]"
    using T [where args = "ustr ''[1]''" and a = "JArr [JInt 1]" and fl = "ustr ''flow-1''"
               and x = "no_attribute_get (JArr [JInt 1])"] l3 g3 cid
    by (simp add: error_output_def no_attribute_get_def)

  have l4: "loaded_args sample_tool_libs hi_arguments = Inr (JObj [(ustr ''input'', JStr (ustr ''hi''))])"
    by (simp add: loaded_args_def sample_tool_libs_def hi_arguments_def)
  have g4: "py_get (JObj [(ustr ''input'', JStr (ustr ''hi''))]) (ustr ''input'') JNull = Inr (JStr (ustr ''hi''))"
    by (simp add: dict_get_def)
  have u4: "UUID sample_tool_libs (ustr ''nope'')
              = Inl (ValueError (ustr ''badly formed hexadecimal UUID string''))"
    by (simp add: sample_tool_libs_def)
  have e4: "to_upstream (handle_function_call sample_tool_libs 0 sample_call hi_arguments (ustr ''nope''))
       = [Dumps (function_call_output (JStr (ustr ''call_1''))
                   (ustr ''Error executing flow: badly formed hexadecimal UUID string''))]"
    using T [where args = hi_arguments and a = "JObj [(ustr ''input'', JStr (ustr ''hi''))]"
               and inp = "JStr (ustr ''hi'')" and fl = "ustr ''nope''"
               and x = "ValueError (ustr ''badly formed hexadecimal UUID string'')"] l4 g4 u4 cid
    by (simp add: error_output_def)

  have l5: "loaded_args sample_tool_libs [] = Inr (JObj [])"
    by (simp add: loaded_args_def)
  have g5: "py_get (JObj []) (ustr ''input'') JNull = Inr JNull"
    by (simp add: dict_get_def)
  have b5: "build_flow sample_tool_libs (ustr ''flow-1'') (chat_request JNull (uuid4 sample_tool_libs 0))
              = Inr ([Inr answer_line, Inr []] @ Inl (Exception (ustr ''stream broke'')) # [])"
    by (simp add: sample_tool_libs_def chat_request_def)
  have q5: "list_all (\<lambda>i. item_raises (json_loads sample_tool_libs) i = None) [Inr answer_line, Inr []]"
    by (simp add: answer_line_quiet empty_line_quiet)
  have r5: "item_raises (json_loads sample_tool_libs) (Inl (Exception (ustr ''stream broke'')))
              = Some (Exception (ustr ''stream broke''))"
    by (simp add: item_raises_def)
  have e5: "to_upstream (handle_function_call sample_tool_libs 0 sample_call [] (ustr ''flow-1''))
       = [Dumps (function_call_output (JStr (ustr ''call_1''))
                   (ustr ''Error executing flow: stream broke''))]"
    using T [where args = "[]" and a = "JObj []" and inp = JNull and fl = "ustr ''flow-1''"
               and f = "ustr ''flow-1''" and x = "Exception (ustr ''stream broke'')"
               and pre = "[Inr answer_line, Inr []]"
               and it = "Inl (Exception (ustr ''stream broke''))" and rest = "[]"]
          l5 g5 uuid b5 q5 r5 cid
    by (simp add: error_output_def)

  have l6: "loaded_args sample_tool_libs go_arguments = Inr (JObj [(ustr ''input'', JStr (ustr ''go''))])"
    by (simp add: loaded_args_def sample_tool_libs_def hi_arguments_def go_arguments_def)
  have g6: "py_get (JObj [(ustr ''input'', JStr (ustr ''go''))]) (ustr ''input'') JNull = Inr (JStr (ustr ''go''))"
    by (simp add: dict_get_def)
  have b6: "build_flow sample_tool_libs (ustr ''flow-1'') (chat_request (JStr (ustr ''go'')) (uuid4 sample_tool_libs 0))
              = Inr [Inr answer_line, Inr []]"
    by (simp add: sample_tool_libs_def chat_request_def)
  have t6: "concat (map (item_text (json_loads sample_tool_libs)) [Inr answer_line, Inr []]) = ustr ''ok''"
    by (simp add: answer_line_quiet empty_line_quiet)
  have e6: "to_upstream (handle_function_call sample_tool_libs 0 sample_call go_arguments (ustr ''flow-1''))
       = [Dumps (function_call_output (JStr (ustr ''call_1'')) (ustr ''ok'')),
          Dumps response_create]"
    using T [where args = go_arguments and a = "JObj [(ustr ''input'', JStr (ustr ''go''))]"
               and inp = "JStr (ustr ''go'')" and fl = "ustr ''flow-1''"
               and f = "ustr ''flow-1''" and body = "[Inr answer_line, Inr []]"]
          l6 g6 uuid b6 q5 t6 cid
    by simp

  from deltas cat fin pending run e1 e2 e3 e4 e5 e6 show ?thesis by blast
qed


end
